theory Spec2Isabelle
  imports Main "HOL-Library.Word"
begin

unbundle bit_operations_syntax

section \<open>Machine types\<close>

type_synonym u8 = "8 word"
type_synonym u16 = "16 word"
type_synonym u32 = "32 word"

section \<open>The debug target and its external collaborators\<close>

text \<open>
  Every access of the driver to the outside world is recorded, in program order, in the
  target state: accesses to target memory and the transport-error query in \<open>hw_log\<close>,
  text sent to the console in \<open>console\<close>, debug output in \<open>debug_log\<close>, and the number
  of heap allocations requested so far in \<open>callocs\<close>.
\<close>

datatype hw_event =
    MemRead32 u32
  | MemWrite32 u32 u32
  | MemWrite u32 "u8 list" nat
  | CheckError

text \<open>
  What the outside world answers. The value a 32-bit read returns and the state of the
  transport-error signal are functions of the accesses made so far; whether the n-th
  heap allocation succeeds is a function of n.
\<close>

record env =
  rd32 :: "hw_event list \<Rightarrow> u32 \<Rightarrow> u32"
  transport_err :: "hw_event list \<Rightarrow> bool"
  calloc_ok :: "nat \<Rightarrow> bool"

text \<open>Function pointers of \<open>struct target_flash\<close> and of the command table, as tags.\<close>

datatype erase_fn = Sam3_flash_erase | Sam4_flash_erase
datatype write_fn = Sam3x_flash_write
datatype cmd_handler = Sam3x_cmd_gpnvm_get | Sam3x_cmd_gpnvm_set

text \<open>
  \<open>struct sam_flash\<close>: the embedded \<open>struct target_flash f\<close> (fields \<open>start\<close>,
  \<open>length\<close>, \<open>blocksize\<close>, \<open>erase\<close>, \<open>write\<close>, \<open>buf_size\<close>), then \<open>eefc_base\<close> and
  \<open>write_cmd\<close>. The fields \<open>length\<close>, \<open>erase\<close> and \<open>write\<close> are called \<open>flength\<close>, \<open>ferase\<close> and \<open>fwrite\<close> here. Sizes of type \<open>size_t\<close>
  are natural numbers: the driver never lets one wrap around.
\<close>

record sam_flash =
  start :: u32
  flength :: nat
  blocksize :: nat
  ferase :: erase_fn
  fwrite :: write_fn
  buf_size :: nat
  eefc_base :: u32
  write_cmd :: u8

text \<open>\<open>struct command_s\<close>: name, handler, help text.\<close>

type_synonym command_s = "string \<times> cmd_handler \<times> string"

text \<open>\<open>struct sam_priv_s\<close>: the buffer \<open>sam_variant_string\<close>, as the characters written to it.\<close>

record sam_priv_s =
  sam_variant_string :: string

record target =
  driver :: string
  ram :: "(u32 \<times> u32) list"
  flash :: "sam_flash list"
  commands :: "(string \<times> command_s list) list"
  target_storage :: "sam_priv_s option"
  hw_log :: "hw_event list"
  console :: "string list"
  debug_log :: "string list"
  callocs :: nat

text \<open>
  Modelled from the spec: the memory-access interface of section 6 (\<open>target_mem_read32\<close>,
  \<open>target_mem_write32\<close>, \<open>target_mem_write\<close>, \<open>target_check_error\<close>), whose code is not
  part of the driver. Each call is appended to \<open>hw_log\<close>; a read and the error query
  return what the environment answers after the accesses made so far.
\<close>

definition target_mem_read32 :: "env \<Rightarrow> target \<Rightarrow> u32 \<Rightarrow> u32 \<times> target" where
  "target_mem_read32 e t addr =
     (rd32 e (hw_log t) addr, t\<lparr>hw_log := hw_log t @ [MemRead32 addr]\<rparr>)"

definition target_mem_write32 :: "target \<Rightarrow> u32 \<Rightarrow> u32 \<Rightarrow> target" where
  "target_mem_write32 t addr v = t\<lparr>hw_log := hw_log t @ [MemWrite32 addr v]\<rparr>"

definition target_mem_write :: "target \<Rightarrow> u32 \<Rightarrow> u8 list \<Rightarrow> nat \<Rightarrow> target" where
  "target_mem_write t dest src len = t\<lparr>hw_log := hw_log t @ [MemWrite dest src len]\<rparr>"

definition target_check_error :: "env \<Rightarrow> target \<Rightarrow> bool \<times> target" where
  "target_check_error e t =
     (transport_err e (hw_log t), t\<lparr>hw_log := hw_log t @ [CheckError]\<rparr>)"

text \<open>
  Modelled from the spec: region and command registration of section 6
  (\<open>target_add_flash\<close>, \<open>target_add_ram\<close>, \<open>target_add_commands\<close>), append-only and in
  registration order; their code is not part of the driver.
\<close>

definition target_add_flash :: "target \<Rightarrow> sam_flash \<Rightarrow> target" where
  "target_add_flash t f = t\<lparr>flash := flash t @ [f]\<rparr>"

definition target_add_ram :: "target \<Rightarrow> u32 \<Rightarrow> u32 \<Rightarrow> target" where
  "target_add_ram t base len = t\<lparr>ram := ram t @ [(base, len)]\<rparr>"

definition target_add_commands :: "target \<Rightarrow> command_s list \<Rightarrow> string \<Rightarrow> target" where
  "target_add_commands t cmds name = t\<lparr>commands := commands t @ [(name, cmds)]\<rparr>"

text \<open>
  Modelled from the spec: the console sink (\<open>tc_printf\<close>), the debug output
  (\<open>DEBUG_WARN\<close>, \<open>DEBUG_INFO\<close>) and the allocator (\<open>calloc\<close>), none of them part of the
  driver. \<open>calloc\<close> returns whether the allocation succeeded.
\<close>

definition tc_printf :: "target \<Rightarrow> string \<Rightarrow> target" where
  "tc_printf t s = t\<lparr>console := console t @ [s]\<rparr>"

definition DEBUG_WARN :: "target \<Rightarrow> string \<Rightarrow> target" where
  "DEBUG_WARN t s = t\<lparr>debug_log := debug_log t @ [s]\<rparr>"

definition DEBUG_INFO :: "target \<Rightarrow> string \<Rightarrow> target" where
  "DEBUG_INFO t s = t\<lparr>debug_log := debug_log t @ [s]\<rparr>"

definition calloc :: "env \<Rightarrow> target \<Rightarrow> bool \<times> target" where
  "calloc e t = (calloc_ok e (callocs t), t\<lparr>callocs := Suc (callocs t)\<rparr>)"

section \<open>printf conversions used by the driver\<close>

definition hex_digit :: "bool \<Rightarrow> nat \<Rightarrow> char" where
  "hex_digit upper n =
     (if upper then ''0123456789ABCDEF'' else ''0123456789abcdef'') ! (n mod 16)"

text \<open>\<open>hex upper k v\<close>: the last k hexadecimal digits of v (\<open>%0kX\<close> or \<open>%0kx\<close> of a value below \<open>16 ^ k\<close>).\<close>

primrec hex :: "bool \<Rightarrow> nat \<Rightarrow> nat \<Rightarrow> string" where
  "hex upper 0 v = []"
| "hex upper (Suc k) v = hex upper k (v div 16) @ [hex_digit upper v]"

text \<open>\<open>%d\<close> and \<open>%02d\<close> of a \<open>uint8_t\<close>.\<close>

definition dec_u8 :: "u8 \<Rightarrow> string" where
  "dec_u8 w =
     (let n = unat w in
      if n < 10 then [hex_digit True n]
      else if n < 100 then [hex_digit True (n div 10), hex_digit True (n mod 10)]
      else [hex_digit True (n div 100), hex_digit True (n div 10 mod 10),
            hex_digit True (n mod 10)])"

definition dec02_u8 :: "u8 \<Rightarrow> string" where
  "dec02_u8 w = (if unat w < 10 then CHR ''0'' # dec_u8 w else dec_u8 w)"

text \<open>A character buffer read as a C string: up to the first NUL.\<close>

definition c_str :: "string \<Rightarrow> string" where
  "c_str buf = takeWhile (\<lambda>c. c \<noteq> CHR 0x00) buf"

section \<open>Register map and command encoding\<close>

abbreviation SAMX7X_EEFC_BASE :: u32 where "SAMX7X_EEFC_BASE \<equiv> 0x400E0C00"
abbreviation SAM3N_EEFC_BASE :: u32 where "SAM3N_EEFC_BASE \<equiv> 0x400E0A00"
definition SAM3X_EEFC_BASE :: "u32 \<Rightarrow> u32" where "SAM3X_EEFC_BASE x = 0x400E0A00 + x * 0x200"
definition SAM3U_EEFC_BASE :: "u32 \<Rightarrow> u32" where "SAM3U_EEFC_BASE x = 0x400E0800 + x * 0x200"
definition SAM4S_EEFC_BASE :: "u32 \<Rightarrow> u32" where "SAM4S_EEFC_BASE x = 0x400E0A00 + x * 0x200"

definition EEFC_FMR :: "u32 \<Rightarrow> u32" where "EEFC_FMR base = base + 0x00"
definition EEFC_FCR :: "u32 \<Rightarrow> u32" where "EEFC_FCR base = base + 0x04"
definition EEFC_FSR :: "u32 \<Rightarrow> u32" where "EEFC_FSR base = base + 0x08"
definition EEFC_FRR :: "u32 \<Rightarrow> u32" where "EEFC_FRR base = base + 0x0C"

definition EEFC_FCR_FKEY :: u32 where "EEFC_FCR_FKEY = push_bit 24 0x5A"

abbreviation EEFC_FCR_FCMD_WP :: u8 where "EEFC_FCR_FCMD_WP \<equiv> 0x01"
abbreviation EEFC_FCR_FCMD_EWP :: u8 where "EEFC_FCR_FCMD_EWP \<equiv> 0x03"
abbreviation EEFC_FCR_FCMD_EPA :: u8 where "EEFC_FCR_FCMD_EPA \<equiv> 0x07"
abbreviation EEFC_FCR_FCMD_SGPB :: u8 where "EEFC_FCR_FCMD_SGPB \<equiv> 0x0B"
abbreviation EEFC_FCR_FCMD_CGPB :: u8 where "EEFC_FCR_FCMD_CGPB \<equiv> 0x0C"
abbreviation EEFC_FCR_FCMD_GGPB :: u8 where "EEFC_FCR_FCMD_GGPB \<equiv> 0x0D"

definition EEFC_FSR_FRDY :: u32 where "EEFC_FSR_FRDY = push_bit 0 1"
definition EEFC_FSR_FCMDE :: u32 where "EEFC_FSR_FCMDE = push_bit 1 1"
definition EEFC_FSR_FLOCKE :: u32 where "EEFC_FSR_FLOCKE = push_bit 2 1"
definition EEFC_FSR_ERROR :: u32 where "EEFC_FSR_ERROR = EEFC_FSR_FCMDE OR EEFC_FSR_FLOCKE"

section \<open>The command sequencer\<close>

text \<open>
  The polling loop of \<open>sam3x_flash_cmd\<close> and the statements after it. The loop has no
  bound of its own: a run that never leaves it is the value \<open>None\<close>.
\<close>

partial_function (option) sam3x_flash_cmd_poll :: "env \<Rightarrow> target \<Rightarrow> u32 \<Rightarrow> (int \<times> target) option" where
  "sam3x_flash_cmd_poll e t base =
     (case target_mem_read32 e t (EEFC_FSR base) of (v, t1) \<Rightarrow>
        if v AND EEFC_FSR_FRDY = 0 then
          (case target_check_error e t1 of (err, t2) \<Rightarrow>
             if err then Some (- 1, t2) else sam3x_flash_cmd_poll e t2 base)
        else
          (case target_mem_read32 e t1 (EEFC_FSR base) of (sr, t2) \<Rightarrow>
             Some (uint (sr AND EEFC_FSR_ERROR), t2)))"

text \<open>The command word: \<open>EEFC_FCR_FKEY | cmd | ((uint32_t)arg << 8)\<close>.\<close>

definition flash_cmd_word :: "u8 \<Rightarrow> u16 \<Rightarrow> u32" where
  "flash_cmd_word cmd arg = EEFC_FCR_FKEY OR ucast cmd OR push_bit 8 (ucast arg)"

definition sam3x_flash_cmd_info :: "u32 \<Rightarrow> u8 \<Rightarrow> u16 \<Rightarrow> string" where
  "sam3x_flash_cmd_info base cmd arg =
     ''sam3x_flash_cmd: base = 0x'' @ hex False 8 (unat base) @
     '' cmd = 0x'' @ hex True 2 (unat cmd) @
     '', arg = 0x'' @ hex True 6 (unat arg) @ [CHR 0x0A]"

definition sam3x_flash_cmd :: "env \<Rightarrow> target \<Rightarrow> u32 \<Rightarrow> u8 \<Rightarrow> u16 \<Rightarrow> (int \<times> target) option" where
  "sam3x_flash_cmd e t base cmd arg =
     (let t1 = DEBUG_INFO t (sam3x_flash_cmd_info base cmd arg);
          t2 = target_mem_write32 t1 (EEFC_FCR base) (flash_cmd_word cmd arg)
      in sam3x_flash_cmd_poll e t2 base)"

section \<open>Chip identification\<close>

definition SAM3X_CHIPID_CIDR :: u32 where "SAM3X_CHIPID_CIDR = 0x400E0940"
definition SAM34NSU_CHIPID_CIDR :: u32 where "SAM34NSU_CHIPID_CIDR = 0x400E0740"
definition SAMX_CHIPID_EXID :: u32 where "SAMX_CHIPID_EXID = SAM3X_CHIPID_CIDR + 0x4"

definition CHIPID_CIDR_VERSION_MASK :: u32 where "CHIPID_CIDR_VERSION_MASK = push_bit 0 0x1F"

definition CHIPID_CIDR_EPROC_MASK :: u32 where "CHIPID_CIDR_EPROC_MASK = push_bit 5 0x7"
definition CHIPID_CIDR_EPROC_CM7 :: u32 where "CHIPID_CIDR_EPROC_CM7 = push_bit 5 0x0"
definition CHIPID_CIDR_EPROC_CM3 :: u32 where "CHIPID_CIDR_EPROC_CM3 = push_bit 5 0x3"
definition CHIPID_CIDR_EPROC_CM4 :: u32 where "CHIPID_CIDR_EPROC_CM4 = push_bit 5 0x7"

definition CHIPID_CIDR_NVPSIZ_MASK :: u32 where "CHIPID_CIDR_NVPSIZ_MASK = push_bit 8 0xF"
definition CHIPID_CIDR_NVPSIZ_8K :: u32 where "CHIPID_CIDR_NVPSIZ_8K = push_bit 8 0x1"
definition CHIPID_CIDR_NVPSIZ_16K :: u32 where "CHIPID_CIDR_NVPSIZ_16K = push_bit 8 0x2"
definition CHIPID_CIDR_NVPSIZ_32K :: u32 where "CHIPID_CIDR_NVPSIZ_32K = push_bit 8 0x3"
definition CHIPID_CIDR_NVPSIZ_64K :: u32 where "CHIPID_CIDR_NVPSIZ_64K = push_bit 8 0x5"
definition CHIPID_CIDR_NVPSIZ_128K :: u32 where "CHIPID_CIDR_NVPSIZ_128K = push_bit 8 0x7"
definition CHIPID_CIDR_NVPSIZ_256K :: u32 where "CHIPID_CIDR_NVPSIZ_256K = push_bit 8 0x9"
definition CHIPID_CIDR_NVPSIZ_512K :: u32 where "CHIPID_CIDR_NVPSIZ_512K = push_bit 8 0xA"
definition CHIPID_CIDR_NVPSIZ_1024K :: u32 where "CHIPID_CIDR_NVPSIZ_1024K = push_bit 8 0xC"
definition CHIPID_CIDR_NVPSIZ_2048K :: u32 where "CHIPID_CIDR_NVPSIZ_2048K = push_bit 8 0xE"

definition CHIPID_CIDR_SRAMSIZ_MASK :: u32 where "CHIPID_CIDR_SRAMSIZ_MASK = push_bit 16 0xF"
definition CHIPID_CIDR_SRAMSIZ_384K :: u32 where "CHIPID_CIDR_SRAMSIZ_384K = push_bit 16 0x2"
definition CHIPID_CIDR_SRAMSIZ_256K :: u32 where "CHIPID_CIDR_SRAMSIZ_256K = push_bit 16 0xD"

definition CHIPID_CIDR_ARCH_MASK :: u32 where "CHIPID_CIDR_ARCH_MASK = push_bit 20 0xFF"
definition CHIPID_CIDR_ARCH_SAME70 :: u32 where "CHIPID_CIDR_ARCH_SAME70 = push_bit 20 0x10"
definition CHIPID_CIDR_ARCH_SAMS70 :: u32 where "CHIPID_CIDR_ARCH_SAMS70 = push_bit 20 0x11"
definition CHIPID_CIDR_ARCH_SAMV71 :: u32 where "CHIPID_CIDR_ARCH_SAMV71 = push_bit 20 0x12"
definition CHIPID_CIDR_ARCH_SAMV70 :: u32 where "CHIPID_CIDR_ARCH_SAMV70 = push_bit 20 0x13"
definition CHIPID_CIDR_ARCH_SAM3UxC :: u32 where "CHIPID_CIDR_ARCH_SAM3UxC = push_bit 20 0x80"
definition CHIPID_CIDR_ARCH_SAM3UxE :: u32 where "CHIPID_CIDR_ARCH_SAM3UxE = push_bit 20 0x81"
definition CHIPID_CIDR_ARCH_SAM3XxC :: u32 where "CHIPID_CIDR_ARCH_SAM3XxC = push_bit 20 0x84"
definition CHIPID_CIDR_ARCH_SAM3XxE :: u32 where "CHIPID_CIDR_ARCH_SAM3XxE = push_bit 20 0x85"
definition CHIPID_CIDR_ARCH_SAM3XxG :: u32 where "CHIPID_CIDR_ARCH_SAM3XxG = push_bit 20 0x86"
definition CHIPID_CIDR_ARCH_SAM3NxA :: u32 where "CHIPID_CIDR_ARCH_SAM3NxA = push_bit 20 0x93"
definition CHIPID_CIDR_ARCH_SAM3NxB :: u32 where "CHIPID_CIDR_ARCH_SAM3NxB = push_bit 20 0x94"
definition CHIPID_CIDR_ARCH_SAM3NxC :: u32 where "CHIPID_CIDR_ARCH_SAM3NxC = push_bit 20 0x95"
definition CHIPID_CIDR_ARCH_SAM3SxA :: u32 where "CHIPID_CIDR_ARCH_SAM3SxA = push_bit 20 0x88"
definition CHIPID_CIDR_ARCH_SAM3SxB :: u32 where "CHIPID_CIDR_ARCH_SAM3SxB = push_bit 20 0x89"
definition CHIPID_CIDR_ARCH_SAM3SxC :: u32 where "CHIPID_CIDR_ARCH_SAM3SxC = push_bit 20 0x8A"
definition CHIPID_CIDR_ARCH_SAM4SxA :: u32 where "CHIPID_CIDR_ARCH_SAM4SxA = push_bit 20 0x88"
definition CHIPID_CIDR_ARCH_SAM4SxB :: u32 where "CHIPID_CIDR_ARCH_SAM4SxB = push_bit 20 0x89"
definition CHIPID_CIDR_ARCH_SAM4SxC :: u32 where "CHIPID_CIDR_ARCH_SAM4SxC = push_bit 20 0x8A"
definition CHIPID_CIDR_ARCH_SAM4SDB :: u32 where "CHIPID_CIDR_ARCH_SAM4SDB = push_bit 20 0x99"
definition CHIPID_CIDR_ARCH_SAM4SDC :: u32 where "CHIPID_CIDR_ARCH_SAM4SDC = push_bit 20 0x9A"

definition CHIPID_CIDR_EXT :: u32 where "CHIPID_CIDR_EXT = push_bit 31 0x01"

definition CHIPID_EXID_SAMX7X_PINS_MASK :: u32 where "CHIPID_EXID_SAMX7X_PINS_MASK = push_bit 0 0x3"
definition CHIPID_EXID_SAMX7X_PINS_Q :: u32 where "CHIPID_EXID_SAMX7X_PINS_Q = push_bit 0 0x2"
definition CHIPID_EXID_SAMX7X_PINS_N :: u32 where "CHIPID_EXID_SAMX7X_PINS_N = push_bit 0 0x1"
definition CHIPID_EXID_SAMX7X_PINS_J :: u32 where "CHIPID_EXID_SAMX7X_PINS_J = push_bit 0 0x0"

definition SAM3_PAGE_SIZE :: nat where "SAM3_PAGE_SIZE = 256"
definition SAM4_PAGE_SIZE :: nat where "SAM4_PAGE_SIZE = 512"

definition sam3x_cmd_list :: "command_s list" where
  "sam3x_cmd_list =
     [(''gpnvm_get'', Sam3x_cmd_gpnvm_get, ''Get GPVNM value''),
      (''gpnvm_set'', Sam3x_cmd_gpnvm_set, ''Set GPVNM bit'')]"

section \<open>Building flash regions\<close>

definition sam3_add_flash :: "env \<Rightarrow> target \<Rightarrow> u32 \<Rightarrow> u32 \<Rightarrow> nat \<Rightarrow> target" where
  "sam3_add_flash e t base addr len =
     (case calloc e t of (ok, t1) \<Rightarrow>
        if \<not> ok then DEBUG_WARN t1 (''calloc: failed in sam3_add_flash'' @ [CHR 0x0A])
        else target_add_flash t1
          \<lparr>start = addr, flength = len, blocksize = SAM3_PAGE_SIZE,
           ferase = Sam3_flash_erase, fwrite = Sam3x_flash_write,
           buf_size = SAM3_PAGE_SIZE, eefc_base = base, write_cmd = EEFC_FCR_FCMD_EWP\<rparr>)"

definition sam4_add_flash :: "env \<Rightarrow> target \<Rightarrow> u32 \<Rightarrow> u32 \<Rightarrow> nat \<Rightarrow> target" where
  "sam4_add_flash e t base addr len =
     (case calloc e t of (ok, t1) \<Rightarrow>
        if \<not> ok then DEBUG_WARN t1 (''calloc: failed in sam4_add_flash'' @ [CHR 0x0A])
        else target_add_flash t1
          \<lparr>start = addr, flength = len, blocksize = SAM4_PAGE_SIZE * 8,
           ferase = Sam4_flash_erase, fwrite = Sam3x_flash_write,
           buf_size = SAM4_PAGE_SIZE, eefc_base = base, write_cmd = EEFC_FCR_FCMD_WP\<rparr>)"

definition sam_flash_size :: "u32 \<Rightarrow> nat" where
  "sam_flash_size cidr =
     (let k = cidr AND CHIPID_CIDR_NVPSIZ_MASK in
      if k = CHIPID_CIDR_NVPSIZ_8K then 0x2000
      else if k = CHIPID_CIDR_NVPSIZ_16K then 0x4000
      else if k = CHIPID_CIDR_NVPSIZ_32K then 0x8000
      else if k = CHIPID_CIDR_NVPSIZ_64K then 0x10000
      else if k = CHIPID_CIDR_NVPSIZ_128K then 0x20000
      else if k = CHIPID_CIDR_NVPSIZ_256K then 0x40000
      else if k = CHIPID_CIDR_NVPSIZ_512K then 0x80000
      else if k = CHIPID_CIDR_NVPSIZ_1024K then 0x100000
      else if k = CHIPID_CIDR_NVPSIZ_2048K then 0x200000
      else 0)"

definition sam_sram_size :: "u32 \<Rightarrow> nat" where
  "sam_sram_size cidr =
     (let k = cidr AND CHIPID_CIDR_SRAMSIZ_MASK in
      if k = CHIPID_CIDR_SRAMSIZ_256K then 0x40000
      else if k = CHIPID_CIDR_SRAMSIZ_384K then 0x60000
      else 0)"

record samx7x_descr =
  product_code :: char
  product_id :: u8
  pins :: char
  ram_size :: u32
  flash_size :: u32
  density :: u8
  revision :: char

definition samx7x_parse_id :: "u32 \<Rightarrow> u32 \<Rightarrow> samx7x_descr" where
  "samx7x_parse_id cidr exid =
     (let d0 = \<lparr>product_code = CHR 0x00, product_id = 0, pins = CHR 0x00, ram_size = 0,
                flash_size = 0, density = 0, revision = CHR 0x00\<rparr>;
          a = cidr AND CHIPID_CIDR_ARCH_MASK;
          d1 = (if a = CHIPID_CIDR_ARCH_SAME70 then d0\<lparr>product_code := CHR ''E'', product_id := 70\<rparr>
                else if a = CHIPID_CIDR_ARCH_SAMS70 then d0\<lparr>product_code := CHR ''S'', product_id := 70\<rparr>
                else if a = CHIPID_CIDR_ARCH_SAMV71 then d0\<lparr>product_code := CHR ''V'', product_id := 71\<rparr>
                else if a = CHIPID_CIDR_ARCH_SAMV70 then d0\<lparr>product_code := CHR ''V'', product_id := 70\<rparr>
                else d0);
          v = exid AND CHIPID_CIDR_VERSION_MASK;
          d2 = (if v = 0 then d1\<lparr>revision := CHR ''A''\<rparr>
                else if v = 1 then d1\<lparr>revision := CHR ''B''\<rparr>
                else d1\<lparr>revision := CHR ''_''\<rparr>);
          p = exid AND CHIPID_EXID_SAMX7X_PINS_MASK;
          d3 = (if p = CHIPID_EXID_SAMX7X_PINS_Q then d2\<lparr>pins := CHR ''Q''\<rparr>
                else if p = CHIPID_EXID_SAMX7X_PINS_N then d2\<lparr>pins := CHR ''N''\<rparr>
                else if p = CHIPID_EXID_SAMX7X_PINS_J then d2\<lparr>pins := CHR ''J''\<rparr>
                else d2);
          d4 = d3\<lparr>ram_size := of_nat (sam_sram_size cidr)\<rparr>;
          d5 = d4\<lparr>flash_size := of_nat (sam_flash_size cidr)\<rparr>
      in if flash_size d5 = 0x200000 then d5\<lparr>density := 21\<rparr>
         else if flash_size d5 = 0x100000 then d5\<lparr>density := 20\<rparr>
         else if flash_size d5 = 0x80000 then d5\<lparr>density := 19\<rparr>
         else d5\<lparr>density := 0\<rparr>)"

text \<open>The case labels of the probes' \<open>switch\<close> statements, in source order.\<close>

definition samx7x_archs :: "u32 list" where
  "samx7x_archs =
     [CHIPID_CIDR_ARCH_SAME70, CHIPID_CIDR_ARCH_SAMS70,
      CHIPID_CIDR_ARCH_SAMV71, CHIPID_CIDR_ARCH_SAMV70]"

definition sam3x_keys :: "u32 list" where
  "sam3x_keys =
     [CHIPID_CIDR_ARCH_SAM3XxC OR CHIPID_CIDR_EPROC_CM3,
      CHIPID_CIDR_ARCH_SAM3XxE OR CHIPID_CIDR_EPROC_CM3,
      CHIPID_CIDR_ARCH_SAM3XxG OR CHIPID_CIDR_EPROC_CM3]"

definition sam3ns_keys :: "u32 list" where
  "sam3ns_keys =
     [CHIPID_CIDR_ARCH_SAM3NxA OR CHIPID_CIDR_EPROC_CM3,
      CHIPID_CIDR_ARCH_SAM3NxB OR CHIPID_CIDR_EPROC_CM3,
      CHIPID_CIDR_ARCH_SAM3NxC OR CHIPID_CIDR_EPROC_CM3,
      CHIPID_CIDR_ARCH_SAM3SxA OR CHIPID_CIDR_EPROC_CM3,
      CHIPID_CIDR_ARCH_SAM3SxB OR CHIPID_CIDR_EPROC_CM3,
      CHIPID_CIDR_ARCH_SAM3SxC OR CHIPID_CIDR_EPROC_CM3]"

definition sam3u_keys :: "u32 list" where
  "sam3u_keys =
     [CHIPID_CIDR_ARCH_SAM3UxC OR CHIPID_CIDR_EPROC_CM3,
      CHIPID_CIDR_ARCH_SAM3UxE OR CHIPID_CIDR_EPROC_CM3]"

definition sam4s_keys :: "u32 list" where
  "sam4s_keys =
     [CHIPID_CIDR_ARCH_SAM4SxA OR CHIPID_CIDR_EPROC_CM4,
      CHIPID_CIDR_ARCH_SAM4SxB OR CHIPID_CIDR_EPROC_CM4,
      CHIPID_CIDR_ARCH_SAM4SxC OR CHIPID_CIDR_EPROC_CM4,
      CHIPID_CIDR_ARCH_SAM4SDB OR CHIPID_CIDR_EPROC_CM4,
      CHIPID_CIDR_ARCH_SAM4SDC OR CHIPID_CIDR_EPROC_CM4]"

text \<open>\<open>sprintf(..., "SAM%c%02d%c%d%c", ...)\<close>: the characters written before the final NUL.\<close>

definition samx7x_variant_string :: "samx7x_descr \<Rightarrow> string" where
  "samx7x_variant_string descr =
     ''SAM'' @ [product_code descr] @ dec02_u8 (product_id descr) @ [pins descr] @
     dec_u8 (density descr) @ [revision descr]"

definition samx7x_probe :: "env \<Rightarrow> target \<Rightarrow> bool \<times> target" where
  "samx7x_probe e t =
     (case target_mem_read32 e t SAM3X_CHIPID_CIDR of (cidr, t1) \<Rightarrow>
      case (if cidr AND CHIPID_CIDR_EXT \<noteq> 0 then target_mem_read32 e t1 SAMX_CHIPID_EXID
            else (0, t1)) of (exid, t2) \<Rightarrow>
      if cidr AND CHIPID_CIDR_ARCH_MASK \<notin> set samx7x_archs then (False, t2)
      else
        let descr = samx7x_parse_id cidr exid;
            t3 = target_add_ram t2 0x20400000 (ram_size descr);
            t4 = sam4_add_flash e t3 SAMX7X_EEFC_BASE 0x00400000 (unat (flash_size descr));
            t5 = target_add_commands t4 sam3x_cmd_list ''SAMX7X''
        in case calloc e t5 of (ok, t6) \<Rightarrow>
             if \<not> ok then
               (False, DEBUG_WARN t6 (''calloc: failed in samx7x_probe'' @ [CHR 0x0A]))
             else
               let priv = \<lparr>sam_variant_string = samx7x_variant_string descr\<rparr>;
                   t7 = t6\<lparr>target_storage := Some priv\<rparr>
               in (True, t7\<lparr>driver := c_str (sam_variant_string priv)\<rparr>))"

definition sam3x_probe :: "env \<Rightarrow> target \<Rightarrow> bool \<times> target" where
  "sam3x_probe e t =
     (case target_mem_read32 e t SAM3X_CHIPID_CIDR of (cidr, t1) \<Rightarrow>
      let size = sam_flash_size cidr;
          key = cidr AND (CHIPID_CIDR_ARCH_MASK OR CHIPID_CIDR_EPROC_MASK)
      in
      if key \<in> set sam3x_keys then
        let t2 = t1\<lparr>driver := ''Atmel SAM3X''\<rparr>;
            t3 = target_add_ram t2 0x20000000 0x200000;
            t4 = sam3_add_flash e t3 (SAM3X_EEFC_BASE 0) 0x80000 (size div 2);
            t5 = sam3_add_flash e t4 (SAM3X_EEFC_BASE 1) (of_nat (0x80000 + size div 2)) (size div 2)
        in (True, target_add_commands t5 sam3x_cmd_list ''SAM3X'')
      else
      case target_mem_read32 e t1 SAM34NSU_CHIPID_CIDR of (cidr, t2) \<Rightarrow>
      let size = sam_flash_size cidr;
          key = cidr AND (CHIPID_CIDR_ARCH_MASK OR CHIPID_CIDR_EPROC_MASK)
      in
      if key \<in> set sam3ns_keys then
        let t3 = t2\<lparr>driver := ''Atmel SAM3N/S''\<rparr>;
            t4 = target_add_ram t3 0x20000000 0x200000;
            size = sam_flash_size cidr;
            t5 = sam3_add_flash e t4 SAM3N_EEFC_BASE 0x400000 size
        in (True, target_add_commands t5 sam3x_cmd_list ''SAM3N/S'')
      else if key \<in> set sam3u_keys then
        let t3 = t2\<lparr>driver := ''Atmel SAM3U''\<rparr>;
            t4 = target_add_ram t3 0x20000000 0x200000;
            t5 = sam3_add_flash e t4 (SAM3U_EEFC_BASE 0) 0x80000 (min size 0x80000);
            t6 = (if size \<ge> 0x80000
                  then sam3_add_flash e t5 (SAM3U_EEFC_BASE 1) 0x100000 0x80000 else t5)
        in (True, target_add_commands t6 sam3x_cmd_list ''SAM3U'')
      else if key \<in> set sam4s_keys then
        let t3 = t2\<lparr>driver := ''Atmel SAM4S''\<rparr>;
            t4 = target_add_ram t3 0x20000000 0x400000;
            size = sam_flash_size cidr;
            t5 = (if size \<le> 0x80000
                  then sam4_add_flash e t4 (SAM4S_EEFC_BASE 0) 0x400000 size
                  else sam4_add_flash e
                         (sam4_add_flash e t4 (SAM4S_EEFC_BASE 0) 0x400000 (size div 2))
                         (SAM4S_EEFC_BASE 1) (of_nat (0x400000 + size div 2)) (size div 2))
        in (True, target_add_commands t5 sam3x_cmd_list ''SAM4S'')
      else (False, t2))"

definition sam3x_flash_base :: "target \<Rightarrow> u32" where
  "sam3x_flash_base t =
     (if driver t = ''Atmel SAM3X'' then SAM3X_EEFC_BASE 0
      else if driver t = ''Atmel SAM3U'' then SAM3U_EEFC_BASE 0
      else if driver t = ''Atmel SAM4S'' then SAM4S_EEFC_BASE 0
      else if driver t = ''Atmel SAM3N/S'' then SAM3N_EEFC_BASE
      else SAMX7X_EEFC_BASE)"

section \<open>Erase and write\<close>

text \<open>
  The \<open>while (len)\<close> loop of \<open>sam4_flash_erase\<close>. \<open>int16_t arg = chunk | 0x1\<close> keeps
  the low 16 bits of \<open>chunk | 0x1\<close>, and so does the conversion of \<open>arg\<close> to the
  \<open>uint16_t\<close> parameter of \<open>sam3x_flash_cmd\<close>. The target \<open>f->t\<close> is passed along as \<open>t\<close>.
\<close>

partial_function (option) sam4_flash_erase_loop ::
  "env \<Rightarrow> target \<Rightarrow> sam_flash \<Rightarrow> u32 \<Rightarrow> u32 \<Rightarrow> nat \<Rightarrow> (int \<times> target) option" where
  "sam4_flash_erase_loop e t f base chunk len =
     (if len = 0 then Some (0, t)
      else
        Option.bind (sam3x_flash_cmd e t base EEFC_FCR_FCMD_EPA (ucast (chunk OR 0x1)))
          (\<lambda>(r, t1).
             if r \<noteq> 0 then Some (- 1, t1)
             else sam4_flash_erase_loop e t1 f base (chunk + 8)
                    (if len > blocksize f then len - blocksize f else 0)))"

definition sam4_flash_erase ::
  "env \<Rightarrow> target \<Rightarrow> sam_flash \<Rightarrow> u32 \<Rightarrow> nat \<Rightarrow> (int \<times> target) option" where
  "sam4_flash_erase e t f addr len =
     (let base = eefc_base f;
          offset = addr - start f;
          chunk = offset div of_nat SAM4_PAGE_SIZE
      in sam4_flash_erase_loop e t f base chunk len)"

definition sam3_flash_erase ::
  "env \<Rightarrow> target \<Rightarrow> sam_flash \<Rightarrow> u32 \<Rightarrow> nat \<Rightarrow> (int \<times> target) option" where
  "sam3_flash_erase e t f addr len = Some (0, t)"

text \<open>
  \<open>unsigned chunk = (dest - f->start) / f->buf_size\<close>, converted to the \<open>uint16_t\<close>
  parameter of \<open>sam3x_flash_cmd\<close>. The division is C's only for \<open>buf_size\<close> other than 0.
\<close>

definition sam3x_flash_write ::
  "env \<Rightarrow> target \<Rightarrow> sam_flash \<Rightarrow> u32 \<Rightarrow> u8 list \<Rightarrow> nat \<Rightarrow> (int \<times> target) option" where
  "sam3x_flash_write e t f dest src len =
     (let base = eefc_base f;
          chunk = (of_nat (unat (dest - start f) div buf_size f) :: u32);
          t1 = target_mem_write t dest src len
      in Option.bind (sam3x_flash_cmd e t1 base (write_cmd f) (ucast chunk))
           (\<lambda>(r, t2). if r \<noteq> 0 then Some (- 1, t2) else Some (0, t2)))"

text \<open>The call \<open>f->erase(f, addr, len)\<close> through the region's function pointer.\<close>

definition call_erase ::
  "env \<Rightarrow> target \<Rightarrow> sam_flash \<Rightarrow> u32 \<Rightarrow> nat \<Rightarrow> (int \<times> target) option" where
  "call_erase e t f addr len =
     (case ferase f of
        Sam3_flash_erase \<Rightarrow> sam3_flash_erase e t f addr len
      | Sam4_flash_erase \<Rightarrow> sam4_flash_erase e t f addr len)"

section \<open>Monitor commands\<close>

text \<open>
  The C library's \<open>atol\<close>: white space, an optional sign, then decimal digits up to the
  first other character (the value is C's as long as it fits a \<open>long\<close>).
\<close>

definition isspace_c :: "char \<Rightarrow> bool" where
  "isspace_c c =
     (c = CHR '' '' \<or> c = CHR 0x09 \<or> c = CHR 0x0A \<or> c = CHR 0x0B \<or> c = CHR 0x0C \<or> c = CHR 0x0D)"

definition isdigit_c :: "char \<Rightarrow> bool" where
  "isdigit_c c = (48 \<le> (of_char c :: nat) \<and> (of_char c :: nat) \<le> 57)"

definition atol :: "string \<Rightarrow> int" where
  "atol s =
     (let s1 = dropWhile isspace_c s;
          neg = (case s1 of [] \<Rightarrow> False | c # _ \<Rightarrow> c = CHR ''-'');
          s2 = (case s1 of [] \<Rightarrow> [] | c # r \<Rightarrow> if c = CHR ''-'' \<or> c = CHR ''+'' then r else s1);
          v = foldl (\<lambda>a c. 10 * a + (of_char c - 48)) 0 (takeWhile isdigit_c s2)
      in if neg then - v else v)"

definition gpnvm_msg :: "u32 \<Rightarrow> string" where
  "gpnvm_msg v = ''GPNVM: 0x'' @ hex True 8 (unat v) @ [CHR 0x0A]"

definition gpnvm_set_usage :: string where
  "gpnvm_set_usage = ''usage: monitor gpnvm_set <bit> <val>'' @ [CHR 0x0A]"

definition sam3x_cmd_gpnvm_get ::
  "env \<Rightarrow> target \<Rightarrow> int \<Rightarrow> string list \<Rightarrow> (bool \<times> target) option" where
  "sam3x_cmd_gpnvm_get e t argc argv =
     (let base = sam3x_flash_base t in
      Option.bind (sam3x_flash_cmd e t base EEFC_FCR_FCMD_GGPB 0)
        (\<lambda>(r, t1).
           case target_mem_read32 e t1 (EEFC_FRR base) of (v, t2) \<Rightarrow>
             Some (True, tc_printf t2 (gpnvm_msg v))))"

text \<open>
  \<open>argv\<close> holds the \<open>argc\<close> strings the console dispatcher passes, the command name
  first. \<open>bit = atol(argv[1])\<close> is converted to \<open>uint32_t\<close>, then to the \<open>uint16_t\<close>
  parameter of \<open>sam3x_flash_cmd\<close>.
\<close>

definition sam3x_cmd_gpnvm_set ::
  "env \<Rightarrow> target \<Rightarrow> int \<Rightarrow> string list \<Rightarrow> (bool \<times> target) option" where
  "sam3x_cmd_gpnvm_set e t argc argv =
     (let base = sam3x_flash_base t in
      if argc \<noteq> 3 then Some (False, tc_printf t gpnvm_set_usage)
      else
        let bit = (word_of_int (atol (argv ! 1)) :: u32);
            cmd = (if atol (argv ! 2) \<noteq> 0 then EEFC_FCR_FCMD_SGPB else EEFC_FCR_FCMD_CGPB)
        in Option.bind (sam3x_flash_cmd e t base cmd (ucast bit))
             (\<lambda>(r, t1).
                Option.bind (sam3x_cmd_gpnvm_get e t1 0 [])
                  (\<lambda>(b, t2). Some (True, t2))))"

section \<open>Notions used in the statements\<close>

text \<open>A target nothing has been done to yet.\<close>

definition target_new :: target where
  "target_new =
     \<lparr>driver = [], ram = [], flash = [], commands = [], target_storage = None,
      hw_log = [], console = [], debug_log = [], callocs = 0\<rparr>"

text \<open>The target after further accesses to the hardware.\<close>

definition log_add :: "target \<Rightarrow> hw_event list \<Rightarrow> target" where
  "log_add t evs = t\<lparr>hw_log := hw_log t @ evs\<rparr>"

text \<open>
  The target once \<open>sam3x_flash_cmd\<close> has printed its debug line and written the command
  word, before it starts polling.
\<close>

definition cmd_issued :: "target \<Rightarrow> u32 \<Rightarrow> u8 \<Rightarrow> u16 \<Rightarrow> target" where
  "cmd_issued t base cmd arg =
     target_mem_write32 (DEBUG_INFO t (sam3x_flash_cmd_info base cmd arg))
       (EEFC_FCR base) (flash_cmd_word cmd arg)"

text \<open>
  The accesses of k polling iterations that neither found the controller ready nor saw a
  transport error: a read of the status register, then the error query, k times.
\<close>

definition poll_idle :: "u32 \<Rightarrow> nat \<Rightarrow> hw_event list" where
  "poll_idle base k = concat (replicate k [MemRead32 (EEFC_FSR base), CheckError])"

text \<open>In state \<open>t\<close>, a read of the status register finds the ready bit clear.\<close>

definition fsr_not_ready :: "env \<Rightarrow> target \<Rightarrow> u32 \<Rightarrow> bool" where
  "fsr_not_ready e t base = (rd32 e (hw_log t) (EEFC_FSR base) AND EEFC_FSR_FRDY = 0)"

text \<open>In state \<open>t\<close>, the error query that follows a read of the status register reports an error.\<close>

definition err_after_read :: "env \<Rightarrow> target \<Rightarrow> u32 \<Rightarrow> bool" where
  "err_after_read e t base = transport_err e (hw_log t @ [MemRead32 (EEFC_FSR base)])"

text \<open>The writes to target memory among a list of accesses.\<close>

fun is_write :: "hw_event \<Rightarrow> bool" where
  "is_write (MemWrite32 a v) = True"
| "is_write (MemWrite a bs n) = True"
| "is_write (MemRead32 a) = False"
| "is_write CheckError = False"

definition writes :: "hw_event list \<Rightarrow> hw_event list" where
  "writes evs = filter is_write evs"

text \<open>
  A scripted environment: a read returns \<open>u\<close> until \<open>n\<close> accesses have been made and
  \<open>v\<close> from then on; the transport-error signal, if \<open>err\<close>, is set from the n-th access
  on; every allocation succeeds.
\<close>

definition env_script :: "nat \<Rightarrow> u32 \<Rightarrow> u32 \<Rightarrow> bool \<Rightarrow> env" where
  "env_script n u v err =
     \<lparr>rd32 = (\<lambda>h a. if length h < n then u else v),
      transport_err = (\<lambda>h. err \<and> n \<le> length h),
      calloc_ok = (\<lambda>k. True)\<rparr>"

text \<open>A region as \<open>sam4_add_flash\<close> and as \<open>sam3_add_flash\<close> build it.\<close>

definition sam4_region :: "u32 \<Rightarrow> u32 \<Rightarrow> nat \<Rightarrow> sam_flash" where
  "sam4_region base addr len =
     \<lparr>start = addr, flength = len, blocksize = SAM4_PAGE_SIZE * 8,
      ferase = Sam4_flash_erase, fwrite = Sam3x_flash_write,
      buf_size = SAM4_PAGE_SIZE, eefc_base = base, write_cmd = EEFC_FCR_FCMD_WP\<rparr>"

definition sam3_region :: "u32 \<Rightarrow> u32 \<Rightarrow> nat \<Rightarrow> sam_flash" where
  "sam3_region base addr len =
     \<lparr>start = addr, flength = len, blocksize = SAM3_PAGE_SIZE,
      ferase = Sam3_flash_erase, fwrite = Sam3x_flash_write,
      buf_size = SAM3_PAGE_SIZE, eefc_base = base, write_cmd = EEFC_FCR_FCMD_EWP\<rparr>"

text \<open>
  The number of iterations of the erase loop for a length, with a block size other than
  0, and the argument of the command of iteration i (counted from 0) when the first page
  is \<open>chunk\<close>.
\<close>

definition erase_blocks :: "nat \<Rightarrow> nat \<Rightarrow> nat" where
  "erase_blocks len bs = (len + bs - 1) div bs"

definition erase_arg :: "u32 \<Rightarrow> nat \<Rightarrow> u16" where
  "erase_arg chunk i = ucast ((chunk + 8 * of_nat i) OR 0x1)"

text \<open>The command words of the first k iterations of the erase loop.\<close>

definition erase_cmds :: "u32 \<Rightarrow> u32 \<Rightarrow> nat \<Rightarrow> hw_event list" where
  "erase_cmds base chunk k =
     map (\<lambda>i. MemWrite32 (EEFC_FCR base) (flash_cmd_word EEFC_FCR_FCMD_EPA (erase_arg chunk i)))
       [0..<k]"

text \<open>
  The target after i erase commands, each of which found the controller ready at its
  first status read.
\<close>

primrec erased :: "target \<Rightarrow> u32 \<Rightarrow> u32 \<Rightarrow> nat \<Rightarrow> target" where
  "erased t base chunk 0 = t"
| "erased t base chunk (Suc i) =
     log_add (cmd_issued (erased t base chunk i) base EEFC_FCR_FCMD_EPA (erase_arg chunk i))
       [MemRead32 (EEFC_FSR base), MemRead32 (EEFC_FSR base)]"

text \<open>
  An environment in which every read returns \<open>cidr\<close>, the transport never fails and
  the allocations that fail are those whose number (counted from 0) is in \<open>fails\<close>.
\<close>

definition env_chip :: "u32 \<Rightarrow> nat list \<Rightarrow> env" where
  "env_chip cidr fails =
     \<lparr>rd32 = (\<lambda>h a. cidr), transport_err = (\<lambda>h. False), calloc_ok = (\<lambda>n. n \<notin> set fails)\<rparr>"

text \<open>
  What the probes read: the identification register at \<open>SAM3X_CHIPID_CIDR\<close>, read
  first by both probes, and the one at \<open>SAM34NSU_CHIPID_CIDR\<close>, which \<open>sam3x_probe\<close>
  reads next when the first does not match. \<open>cidr_key\<close> is the architecture and
  processor field that \<open>sam3x_probe\<close> switches on.
\<close>

definition cidr_first :: "env \<Rightarrow> target \<Rightarrow> u32" where
  "cidr_first e t = rd32 e (hw_log t) SAM3X_CHIPID_CIDR"

definition cidr_second :: "env \<Rightarrow> target \<Rightarrow> u32" where
  "cidr_second e t = rd32 e (hw_log t @ [MemRead32 SAM3X_CHIPID_CIDR]) SAM34NSU_CHIPID_CIDR"

definition cidr_key :: "u32 \<Rightarrow> u32" where
  "cidr_key cidr = cidr AND (CHIPID_CIDR_ARCH_MASK OR CHIPID_CIDR_EPROC_MASK)"

text \<open>The recognition tables of the two probes.\<close>

definition sam3x_recognised :: "env \<Rightarrow> target \<Rightarrow> bool" where
  "sam3x_recognised e t =
     (cidr_key (cidr_first e t) \<in> set sam3x_keys \<or>
      cidr_key (cidr_second e t) \<in> set (sam3ns_keys @ sam3u_keys @ sam4s_keys))"

definition samx7x_recognised :: "env \<Rightarrow> target \<Rightarrow> bool" where
  "samx7x_recognised e t = (cidr_first e t AND CHIPID_CIDR_ARCH_MASK \<in> set samx7x_archs)"

text \<open>The identification register value that \<open>sam3x_probe\<close> decodes the flash size from.\<close>

definition sam3x_probed_cidr :: "env \<Rightarrow> target \<Rightarrow> u32" where
  "sam3x_probed_cidr e t =
     (if cidr_key (cidr_first e t) \<in> set sam3x_keys then cidr_first e t else cidr_second e t)"

text \<open>
  A list of regions in which each one starts where the one before it ends; in which the
  start addresses go strictly up; the sum of the lengths.
\<close>

fun contiguous :: "sam_flash list \<Rightarrow> bool" where
  "contiguous (f # g # fs) = (unat (start f) + flength f = unat (start g) \<and> contiguous (g # fs))"
| "contiguous fs = True"

fun ascending :: "sam_flash list \<Rightarrow> bool" where
  "ascending (f # g # fs) = (start f < start g \<and> ascending (g # fs))"
| "ascending fs = True"

definition total_length :: "sam_flash list \<Rightarrow> nat" where
  "total_length fs = sum_list (map flength fs)"

section \<open>Properties of the sequencer\<close>

lemma log_add_nil [simp]: "log_add t [] = t"
  by (simp add: log_add_def)

lemma log_add_add [simp]: "log_add (log_add t a) b = log_add t (a @ b)"
  by (simp add: log_add_def)

lemma hw_log_log_add [simp]: "hw_log (log_add t a) = hw_log t @ a"
  by (simp add: log_add_def)

lemma poll_ready:
  assumes "\<not> fsr_not_ready e t base"
  shows "sam3x_flash_cmd_poll e t base =
    Some (uint (rd32 e (hw_log t @ [MemRead32 (EEFC_FSR base)]) (EEFC_FSR base) AND EEFC_FSR_ERROR),
          log_add t [MemRead32 (EEFC_FSR base), MemRead32 (EEFC_FSR base)])"
  using assms
  by (subst sam3x_flash_cmd_poll.simps)
     (simp add: fsr_not_ready_def target_mem_read32_def log_add_def)

lemma poll_error:
  assumes "fsr_not_ready e t base" "err_after_read e t base"
  shows "sam3x_flash_cmd_poll e t base =
    Some (- 1, log_add t [MemRead32 (EEFC_FSR base), CheckError])"
  using assms
  by (subst sam3x_flash_cmd_poll.simps)
     (simp add: fsr_not_ready_def err_after_read_def target_mem_read32_def
        target_check_error_def log_add_def)

lemma poll_again:
  assumes "fsr_not_ready e t base" "\<not> err_after_read e t base"
  shows "sam3x_flash_cmd_poll e t base =
    sam3x_flash_cmd_poll e (log_add t [MemRead32 (EEFC_FSR base), CheckError]) base"
  using assms
  by (subst sam3x_flash_cmd_poll.simps)
     (simp add: fsr_not_ready_def err_after_read_def target_mem_read32_def
        target_check_error_def log_add_def)

lemma poll_idle_Suc:
  "poll_idle base (Suc k) = poll_idle base k @ [MemRead32 (EEFC_FSR base), CheckError]"
  unfolding poll_idle_def by (induction k) simp_all

lemma poll_skip:
  assumes "\<forall>j<k. fsr_not_ready e (log_add t (poll_idle base j)) base \<and>
                 \<not> err_after_read e (log_add t (poll_idle base j)) base"
  shows "sam3x_flash_cmd_poll e t base =
         sam3x_flash_cmd_poll e (log_add t (poll_idle base k)) base"
  using assms
proof (induction k)
  case 0
  then show ?case by (simp add: poll_idle_def)
next
  case (Suc k)
  have "sam3x_flash_cmd_poll e t base =
        sam3x_flash_cmd_poll e (log_add t (poll_idle base k)) base"
    using Suc by simp
  also have "\<dots> = sam3x_flash_cmd_poll e
      (log_add (log_add t (poll_idle base k)) [MemRead32 (EEFC_FSR base), CheckError]) base"
    using Suc.prems by (intro poll_again) simp_all
  finally show ?case by (simp add: poll_idle_Suc)
qed

lemma EEFC_FSR_ERROR_eq: "EEFC_FSR_ERROR = 6"
  by (simp add: EEFC_FSR_ERROR_def EEFC_FSR_FCMDE_def EEFC_FSR_FLOCKE_def)

lemma error_mask_cases: "uint (sr AND EEFC_FSR_ERROR) \<in> {0, 2, 4, 6}"
proof -
  have "sr AND 6 \<le> (6::u32)" by (rule word_and_le1)
  then have "uint (sr AND 6) \<le> uint (6::u32)" by (simp only: word_le_def)
  then have b: "uint (sr AND 6) \<le> 6" by simp
  have ev: "even (uint (sr AND 6))"
    by (metis even_and_iff even_numeral even_of_int_iff word_of_int_uint)
  have nn: "0 \<le> uint (sr AND 6)" by simp
  from b ev nn have "uint (sr AND 6) = 0 \<or> uint (sr AND 6) = 2 \<or>
      uint (sr AND 6) = 4 \<or> uint (sr AND 6) = 6" by presburger
  then show ?thesis by (auto simp only: EEFC_FSR_ERROR_eq insert_iff)
qed

lemma sam3x_flash_cmd_eq:
  "sam3x_flash_cmd e t base cmd arg = sam3x_flash_cmd_poll e (cmd_issued t base cmd arg) base"
  by (simp add: sam3x_flash_cmd_def cmd_issued_def)

lemma all_less_2: "(\<forall>j<2::nat. P j) \<longleftrightarrow> P 0 \<and> P 1"
  by (auto simp: less_2_cases_iff)

lemma length_poll_idle [simp]: "length (poll_idle base k) = 2 * k"
  by (induction k) (simp_all add: poll_idle_def)

lemma hw_log_cmd_issued:
  "hw_log (cmd_issued t base cmd arg) =
   hw_log t @ [MemWrite32 (EEFC_FCR base) (flash_cmd_word cmd arg)]"
  by (simp add: cmd_issued_def target_mem_write32_def DEBUG_INFO_def)

lemma writes_append [simp]: "writes (a @ b) = writes a @ writes b"
  by (simp add: writes_def)

lemma poll_trace:
  assumes "sam3x_flash_cmd_poll e t base = Some y"
  shows "\<exists>evs. snd y = log_add t evs \<and> writes evs = []"
  using assms
proof (induction rule: sam3x_flash_cmd_poll.raw_induct [rotated 1, consumes 1])
  case (1 poll e t base y)
  show ?case
  proof (cases "rd32 e (hw_log t) (EEFC_FSR base) AND EEFC_FSR_FRDY = 0")
    case False
    with 1(2) have "snd y = log_add t [MemRead32 (EEFC_FSR base), MemRead32 (EEFC_FSR base)]"
      by (auto simp: target_mem_read32_def log_add_def)
    then show ?thesis by (intro exI[of _ "[MemRead32 (EEFC_FSR base), MemRead32 (EEFC_FSR base)]"]) (simp add: writes_def)
  next
    case nr: True
    show ?thesis
    proof (cases "transport_err e (hw_log t @ [MemRead32 (EEFC_FSR base)])")
      case True
      with nr 1(2) have "snd y = log_add t [MemRead32 (EEFC_FSR base), CheckError]"
        by (auto simp: target_mem_read32_def target_check_error_def log_add_def)
      then show ?thesis by (intro exI[of _ "[MemRead32 (EEFC_FSR base), CheckError]"]) (simp add: writes_def)
    next
      case False
      with nr 1(2) have rec: "poll e (log_add t [MemRead32 (EEFC_FSR base), CheckError]) base = Some y"
        by (auto simp: target_mem_read32_def target_check_error_def log_add_def)
      from 1(1)[OF rec] obtain evs where "snd y = log_add t ([MemRead32 (EEFC_FSR base), CheckError] @ evs)" "writes evs = []"
        by auto
      then show ?thesis by (intro exI[of _ "[MemRead32 (EEFC_FSR base), CheckError] @ evs"]) (simp add: writes_def)
    qed
  qed
qed

lemma sam3x_flash_cmd_trace:
  assumes "sam3x_flash_cmd e t base cmd arg = Some y"
  shows "\<exists>evs. snd y = log_add (cmd_issued t base cmd arg) evs \<and> writes evs = []"
  using assms unfolding sam3x_flash_cmd_eq by (rule poll_trace)

lemma writes_cmd_issued:
  "writes (hw_log (cmd_issued t base cmd arg)) =
   writes (hw_log t) @ [MemWrite32 (EEFC_FCR base) (flash_cmd_word cmd arg)]"
  by (simp add: hw_log_cmd_issued) (simp add: writes_def)

lemma sam3x_flash_cmd_writes:
  assumes "sam3x_flash_cmd e t base cmd arg = Some y"
  shows "writes (hw_log (snd y)) =
         writes (hw_log t) @ [MemWrite32 (EEFC_FCR base) (flash_cmd_word cmd arg)]"
proof -
  from sam3x_flash_cmd_trace [OF assms] obtain evs
    where "snd y = log_add (cmd_issued t base cmd arg) evs" "writes evs = []" by blast
  then show ?thesis by (simp add: writes_cmd_issued)
qed

text \<open>The fields of a command word.\<close>

lemma cmd_word_gen:
  fixes k :: u32 and cmd :: u8 and arg :: u16
  defines "w \<equiv> push_bit 24 k OR ucast cmd OR push_bit 8 (ucast arg)"
  shows "drop_bit 24 w = take_bit 8 k" "ucast w = cmd" "ucast (drop_bit 8 w) = arg"
  unfolding w_def
  by (rule bit_word_eqI; auto simp: bit_simps dest: bit_imp_le_length)+

lemma flash_cmd_word_key: "drop_bit 24 (flash_cmd_word cmd arg) = 0x5A"
  unfolding flash_cmd_word_def EEFC_FCR_FKEY_def cmd_word_gen by simp

lemma flash_cmd_word_cmd: "ucast (flash_cmd_word cmd arg) = cmd"
  unfolding flash_cmd_word_def EEFC_FCR_FKEY_def by (rule cmd_word_gen)

lemma flash_cmd_word_arg: "ucast (drop_bit 8 (flash_cmd_word cmd arg)) = arg"
  unfolding flash_cmd_word_def EEFC_FCR_FKEY_def by (rule cmd_word_gen)

lemma ucast_ucast_16: "(ucast (ucast (A::u32) :: u16) :: u32) = take_bit 16 A"
  by (rule bit_word_eqI) (auto simp: bit_simps)

text \<open>A command on a controller that is ready at the first status read.\<close>

lemma sam3x_flash_cmd_ready_at_once:
  assumes "\<not> fsr_not_ready e (cmd_issued t base cmd arg) base"
  shows "sam3x_flash_cmd e t base cmd arg =
     Some (uint (rd32 e (hw_log (cmd_issued t base cmd arg) @ [MemRead32 (EEFC_FSR base)])
                   (EEFC_FSR base) AND EEFC_FSR_ERROR),
           log_add (cmd_issued t base cmd arg)
             [MemRead32 (EEFC_FSR base), MemRead32 (EEFC_FSR base)])"
  unfolding sam3x_flash_cmd_eq using assms by (rule poll_ready)

text \<open>
  The loop has no time-out: on a controller that never gets ready, with a transport that
  never fails, \<open>sam3x_flash_cmd\<close> does not return.
\<close>

lemma poll_idle_Suc_front:
  "poll_idle base (Suc k) = [MemRead32 (EEFC_FSR base), CheckError] @ poll_idle base k"
  by (simp add: poll_idle_def)

lemma poll_never_returns:
  assumes "sam3x_flash_cmd_poll e t base = Some y"
  shows "\<exists>k. \<not> (fsr_not_ready e (log_add t (poll_idle base k)) base \<and>
                 \<not> err_after_read e (log_add t (poll_idle base k)) base)"
  using assms
proof (induction rule: sam3x_flash_cmd_poll.raw_induct [rotated 1, consumes 1])
  case (1 poll e t base y)
  show ?case
  proof (cases "fsr_not_ready e t base \<and> \<not> err_after_read e t base")
    case False
    then have "\<not> (fsr_not_ready e (log_add t (poll_idle base 0)) base \<and>
                 \<not> err_after_read e (log_add t (poll_idle base 0)) base)"
      by (simp add: poll_idle_def)
    then show ?thesis by blast
  next
    case True
    with 1(2) have "poll e (log_add t [MemRead32 (EEFC_FSR base), CheckError]) base = Some y"
      by (auto simp: fsr_not_ready_def err_after_read_def target_mem_read32_def
            target_check_error_def log_add_def)
    from 1(1) [OF this] obtain k where
      "\<not> (fsr_not_ready e (log_add t (poll_idle base (Suc k))) base \<and>
          \<not> err_after_read e (log_add t (poll_idle base (Suc k))) base)"
      by (auto simp: poll_idle_Suc_front)
    then show ?thesis by blast
  qed
qed

lemma sam3x_flash_cmd_never_ready:
  assumes "\<forall>k. fsr_not_ready e (log_add (cmd_issued t base cmd arg) (poll_idle base k)) base \<and>
               \<not> err_after_read e (log_add (cmd_issued t base cmd arg) (poll_idle base k)) base"
  shows "sam3x_flash_cmd e t base cmd arg = None"
proof (cases "sam3x_flash_cmd e t base cmd arg")
  case None
  then show ?thesis .
next
  case (Some y)
  then have "sam3x_flash_cmd_poll e (cmd_issued t base cmd arg) base = Some y"
    by (simp add: sam3x_flash_cmd_eq)
  from poll_never_returns [OF this] assms show ?thesis by blast
qed

section \<open>Properties of region building\<close>

lemma sam3_add_flash_ok:
  "calloc_ok e (callocs t) \<Longrightarrow>
   sam3_add_flash e t base addr len =
     target_add_flash (t\<lparr>callocs := Suc (callocs t)\<rparr>) (sam3_region base addr len)"
  by (simp add: sam3_add_flash_def calloc_def sam3_region_def)

lemma sam4_add_flash_ok:
  "calloc_ok e (callocs t) \<Longrightarrow>
   sam4_add_flash e t base addr len =
     target_add_flash (t\<lparr>callocs := Suc (callocs t)\<rparr>) (sam4_region base addr len)"
  by (simp add: sam4_add_flash_def calloc_def sam4_region_def)

lemma sam3_add_flash_fail:
  "\<not> calloc_ok e (callocs t) \<Longrightarrow>
   sam3_add_flash e t base addr len =
     DEBUG_WARN (t\<lparr>callocs := Suc (callocs t)\<rparr>) (''calloc: failed in sam3_add_flash'' @ [CHR 0x0A])"
  by (simp add: sam3_add_flash_def calloc_def)

lemma sam4_add_flash_fail:
  "\<not> calloc_ok e (callocs t) \<Longrightarrow>
   sam4_add_flash e t base addr len =
     DEBUG_WARN (t\<lparr>callocs := Suc (callocs t)\<rparr>) (''calloc: failed in sam4_add_flash'' @ [CHR 0x0A])"
  by (simp add: sam4_add_flash_def calloc_def)

section \<open>Properties of the monitor commands\<close>

lemma driver_log_add [simp]: "driver (log_add t evs) = driver t"
  by (simp add: log_add_def)

lemma driver_cmd_issued [simp]: "driver (cmd_issued t base cmd arg) = driver t"
  by (simp add: cmd_issued_def target_mem_write32_def DEBUG_INFO_def)

lemma sam3x_flash_cmd_driver:
  assumes "sam3x_flash_cmd e t base cmd arg = Some (r, t')"
  shows "driver t' = driver t"
  using sam3x_flash_cmd_trace [OF assms] by auto

lemma sam3x_flash_cmd_flash_base:
  assumes "sam3x_flash_cmd e t base cmd arg = Some (r, t')"
  shows "sam3x_flash_base t' = sam3x_flash_base t"
  using sam3x_flash_cmd_driver [OF assms] by (simp add: sam3x_flash_base_def)

lemma gpnvm_get_run:
  assumes "sam3x_flash_cmd e t (sam3x_flash_base t) EEFC_FCR_FCMD_GGPB 0 = Some (r, t1)"
  shows "sam3x_cmd_gpnvm_get e t argc argv =
     Some (True, tc_printf (log_add t1 [MemRead32 (EEFC_FRR (sam3x_flash_base t))])
                   (gpnvm_msg (rd32 e (hw_log t1) (EEFC_FRR (sam3x_flash_base t)))))"
  using assms by (simp add: sam3x_cmd_gpnvm_get_def Let_def target_mem_read32_def log_add_def)

lemma gpnvm_get_True:
  "sam3x_cmd_gpnvm_get e t argc argv = Some (b, t') \<Longrightarrow> b"
  by (auto simp: sam3x_cmd_gpnvm_get_def Let_def split: Option.bind_splits prod.splits)

lemma gpnvm_set_True:
  "sam3x_cmd_gpnvm_set e t 3 argv = Some (b, t') \<Longrightarrow> b"
  by (auto simp: sam3x_cmd_gpnvm_set_def Let_def split: Option.bind_splits prod.splits)

lemma sam3x_flash_cmd_error_at_once:
  assumes "fsr_not_ready e (cmd_issued t base cmd arg) base"
    and "err_after_read e (cmd_issued t base cmd arg) base"
  shows "sam3x_flash_cmd e t base cmd arg =
     Some (- 1, log_add (cmd_issued t base cmd arg) [MemRead32 (EEFC_FSR base), CheckError])"
  unfolding sam3x_flash_cmd_eq using assms by (rule poll_error)

lemma atol_1: "atol ''1'' = 1"
  by (simp add: atol_def isspace_c_def isdigit_c_def)

section \<open>Properties used for erase and write\<close>

lemma writes_target_mem_write:
  "writes (hw_log (target_mem_write t dest src len)) = writes (hw_log t) @ [MemWrite dest src len]"
  by (simp add: target_mem_write_def writes_def)

lemma sam3x_flash_cmd_ready_script:
  "sam3x_flash_cmd (env_script 0 u v err) t base cmd arg =
     Some (uint (v AND EEFC_FSR_ERROR),
           log_add (cmd_issued t base cmd arg) [MemRead32 (EEFC_FSR base), MemRead32 (EEFC_FSR base)])"
  if "v AND EEFC_FSR_FRDY \<noteq> 0"
  using that
  by (subst sam3x_flash_cmd_ready_at_once) (simp_all add: fsr_not_ready_def env_script_def)

lemma erase_loop_done: "sam4_flash_erase_loop e t f base chunk 0 = Some (0, t)"
  by (subst sam4_flash_erase_loop.simps) simp

lemma erase_loop_ok:
  assumes "0 < len"
    and "sam3x_flash_cmd e t base EEFC_FCR_FCMD_EPA (ucast (chunk OR 0x1)) = Some (0, t1)"
  shows "sam4_flash_erase_loop e t f base chunk len =
         sam4_flash_erase_loop e t1 f base (chunk + 8) (len - blocksize f)"
  using assms by (subst sam4_flash_erase_loop.simps) simp

lemma erase_loop_fail:
  assumes "0 < len"
    and "sam3x_flash_cmd e t base EEFC_FCR_FCMD_EPA (ucast (chunk OR 0x1)) = Some (r, t1)"
    and "r \<noteq> 0"
  shows "sam4_flash_erase_loop e t f base chunk len = Some (- 1, t1)"
  using assms by (subst sam4_flash_erase_loop.simps) simp

lemma erase_blocks_less: "0 < bs \<Longrightarrow> k < erase_blocks len bs \<longleftrightarrow> k * bs < len"
proof -
  assume bs: "0 < bs"
  have "k < erase_blocks len bs \<longleftrightarrow> Suc k \<le> (len + bs - 1) div bs"
    by (simp add: erase_blocks_def Suc_le_eq)
  also have "\<dots> \<longleftrightarrow> Suc k * bs \<le> len + bs - 1"
    using bs by (simp add: less_eq_div_iff_mult_less_eq)
  also have "\<dots> \<longleftrightarrow> k * bs < len"
    using bs by auto
  finally show ?thesis .
qed

lemma erase_loop_chain:
  assumes bs: "0 < blocksize f"
    and run: "\<forall>i<k. sam3x_flash_cmd e (ts i) base EEFC_FCR_FCMD_EPA (erase_arg chunk i) =
                    Some (0, ts (Suc i))"
    and k: "k \<le> erase_blocks len (blocksize f)"
  shows "sam4_flash_erase_loop e (ts 0) f base chunk len =
         sam4_flash_erase_loop e (ts k) f base (chunk + 8 * of_nat k) (len - k * blocksize f)"
  using run k
proof (induction k)
  case 0
  then show ?case by simp
next
  case (Suc k)
  have "k < erase_blocks len (blocksize f)" using Suc.prems(2) by simp
  then have pos: "0 < len - k * blocksize f"
    using bs by (simp add: erase_blocks_less)
  have cmd: "sam3x_flash_cmd e (ts k) base EEFC_FCR_FCMD_EPA
               (ucast ((chunk + 8 * of_nat k) OR 0x1)) = Some (0, ts (Suc k))"
    using Suc.prems(1) by (simp add: erase_arg_def)
  have "sam4_flash_erase_loop e (ts 0) f base chunk len =
        sam4_flash_erase_loop e (ts k) f base (chunk + 8 * of_nat k) (len - k * blocksize f)"
    using Suc by simp
  also have "\<dots> = sam4_flash_erase_loop e (ts (Suc k)) f base (chunk + 8 * of_nat k + 8)
                     (len - k * blocksize f - blocksize f)"
    using pos cmd by (rule erase_loop_ok)
  finally show ?case by (simp add: algebra_simps)
qed

lemma erase_cmds_Suc:
  "erase_cmds base chunk (Suc k) = erase_cmds base chunk k @
     [MemWrite32 (EEFC_FCR base) (flash_cmd_word EEFC_FCR_FCMD_EPA (erase_arg chunk k))]"
  by (simp add: erase_cmds_def)

lemma erase_chain_writes:
  assumes "\<forall>i<k. sam3x_flash_cmd e (ts i) base EEFC_FCR_FCMD_EPA (erase_arg chunk i) =
                    Some (r i, ts (Suc i))"
  shows "writes (hw_log (ts k)) = writes (hw_log (ts 0)) @ erase_cmds base chunk k"
  using assms
proof (induction k)
  case 0
  then show ?case by (simp add: erase_cmds_def)
next
  case (Suc k)
  have "sam3x_flash_cmd e (ts k) base EEFC_FCR_FCMD_EPA (erase_arg chunk k) = Some (r k, ts (Suc k))"
    using Suc.prems by simp
  from sam3x_flash_cmd_writes [OF this] Suc show ?case
    by (simp add: erase_cmds_Suc)
qed

text \<open>On a page index that is a multiple of 8 the argument ends in the bits 001.\<close>

lemma erase_arg_aligned:
  fixes chunk :: u32
  assumes "take_bit 3 chunk = 0"
  shows "take_bit 3 (erase_arg chunk i) = 1"
proof -
  let ?x = "chunk + 8 * of_nat i"
  have "push_bit 3 (drop_bit 3 chunk) + take_bit 3 chunk = chunk" by (rule bits_ident)
  then have "chunk = push_bit 3 (drop_bit 3 chunk)" using assms by simp
  then have "?x = push_bit 3 (drop_bit 3 chunk) + push_bit 3 (of_nat i)"
    by (simp add: push_bit_eq_mult)
  then have x: "?x = push_bit 3 (drop_bit 3 chunk + of_nat i)"
    by (simp add: push_bit_add)
  have nb: "\<not> bit ?x n" if "n < 3" for n
    unfolding x using that by (simp add: bit_push_bit_iff)
  show ?thesis
    unfolding erase_arg_def
    by (rule bit_word_eqI) (auto simp: bit_simps nb)
qed

lemma all_less_3: "(\<forall>j<3::nat. P j) \<longleftrightarrow> P 0 \<and> P 1 \<and> P 2"
proof -
  have "j < 3 \<longleftrightarrow> j = 0 \<or> j = 1 \<or> j = 2" for j :: nat by arith
  then show ?thesis by auto
qed

lemma all_less_1: "(\<forall>j<1::nat. P j) \<longleftrightarrow> P 0"
  by simp

section \<open>Properties of the probes\<close>

lemma sam_flash_size_cases:
  "sam_flash_size c \<in> {0, 0x2000, 0x4000, 0x8000, 0x10000, 0x20000, 0x40000, 0x80000, 0x100000, 0x200000}"
  by (simp add: sam_flash_size_def Let_def)

lemma probe_fields_log_add [simp]:
  "flash (log_add t evs) = flash t" "ram (log_add t evs) = ram t"
  "commands (log_add t evs) = commands t" "target_storage (log_add t evs) = target_storage t"
  "console (log_add t evs) = console t" "debug_log (log_add t evs) = debug_log t"
  "callocs (log_add t evs) = callocs t"
  by (simp_all add: log_add_def)

lemma samx7x_probe_unknown:
  assumes "\<not> samx7x_recognised e t"
  shows "samx7x_probe e t =
     (False, log_add t (MemRead32 SAM3X_CHIPID_CIDR #
        (if cidr_first e t AND CHIPID_CIDR_EXT \<noteq> 0 then [MemRead32 SAMX_CHIPID_EXID] else [])))"
  using assms
  by (simp add: samx7x_probe_def samx7x_recognised_def cidr_first_def target_mem_read32_def
        log_add_def)

lemma sam3x_probe_unknown:
  assumes "\<not> sam3x_recognised e t"
  shows "sam3x_probe e t =
     (False, log_add t [MemRead32 SAM3X_CHIPID_CIDR, MemRead32 SAM34NSU_CHIPID_CIDR])"
  using assms
  by (simp add: sam3x_probe_def sam3x_recognised_def cidr_first_def cidr_second_def cidr_key_def
        target_mem_read32_def log_add_def Let_def)

lemma sam3x_probe_result: "fst (sam3x_probe e t) = sam3x_recognised e t"
  by (simp add: sam3x_probe_def sam3x_recognised_def cidr_first_def cidr_second_def cidr_key_def
        target_mem_read32_def Let_def)


lemma callocs_sam4_add_flash [simp]:
  "callocs (sam4_add_flash e t base addr len) = Suc (callocs t)"
  by (simp add: sam4_add_flash_def calloc_def DEBUG_WARN_def target_add_flash_def)

lemma callocs_sam3_add_flash [simp]:
  "callocs (sam3_add_flash e t base addr len) = Suc (callocs t)"
  by (simp add: sam3_add_flash_def calloc_def DEBUG_WARN_def target_add_flash_def)

lemma samx7x_probe_result:
  "fst (samx7x_probe e t) = (samx7x_recognised e t \<and> calloc_ok e (Suc (callocs t)))"
  by (simp add: samx7x_probe_def samx7x_recognised_def cidr_first_def target_mem_read32_def
        Let_def calloc_def target_add_commands_def target_add_ram_def split: prod.splits)

lemmas chipid_defs =
  CHIPID_CIDR_ARCH_MASK_def CHIPID_CIDR_EPROC_MASK_def CHIPID_CIDR_EPROC_CM3_def
  CHIPID_CIDR_EPROC_CM4_def CHIPID_CIDR_EXT_def
  CHIPID_CIDR_ARCH_SAME70_def CHIPID_CIDR_ARCH_SAMS70_def
  CHIPID_CIDR_ARCH_SAMV71_def CHIPID_CIDR_ARCH_SAMV70_def
  CHIPID_CIDR_ARCH_SAM3XxC_def CHIPID_CIDR_ARCH_SAM3XxE_def CHIPID_CIDR_ARCH_SAM3XxG_def
  CHIPID_CIDR_ARCH_SAM3NxA_def CHIPID_CIDR_ARCH_SAM3NxB_def CHIPID_CIDR_ARCH_SAM3NxC_def
  CHIPID_CIDR_ARCH_SAM3SxA_def CHIPID_CIDR_ARCH_SAM3SxB_def CHIPID_CIDR_ARCH_SAM3SxC_def
  CHIPID_CIDR_ARCH_SAM3UxC_def CHIPID_CIDR_ARCH_SAM3UxE_def
  CHIPID_CIDR_ARCH_SAM4SxA_def CHIPID_CIDR_ARCH_SAM4SxB_def CHIPID_CIDR_ARCH_SAM4SxC_def
  CHIPID_CIDR_ARCH_SAM4SDB_def CHIPID_CIDR_ARCH_SAM4SDC_def
  samx7x_archs_def sam3x_keys_def sam3ns_keys_def sam3u_keys_def sam4s_keys_def

lemmas nvpsiz_defs =
  CHIPID_CIDR_NVPSIZ_MASK_def CHIPID_CIDR_NVPSIZ_8K_def CHIPID_CIDR_NVPSIZ_16K_def
  CHIPID_CIDR_NVPSIZ_32K_def CHIPID_CIDR_NVPSIZ_64K_def CHIPID_CIDR_NVPSIZ_128K_def
  CHIPID_CIDR_NVPSIZ_256K_def CHIPID_CIDR_NVPSIZ_512K_def CHIPID_CIDR_NVPSIZ_1024K_def
  CHIPID_CIDR_NVPSIZ_2048K_def

lemma flash_sam3_add_flash:
  "flash (sam3_add_flash e t base addr len) =
     (if calloc_ok e (callocs t) then flash t @ [sam3_region base addr len] else flash t)"
  by (simp add: sam3_add_flash_def calloc_def DEBUG_WARN_def target_add_flash_def sam3_region_def)

lemma flash_sam4_add_flash:
  "flash (sam4_add_flash e t base addr len) =
     (if calloc_ok e (callocs t) then flash t @ [sam4_region base addr len] else flash t)"
  by (simp add: sam4_add_flash_def calloc_def DEBUG_WARN_def target_add_flash_def sam4_region_def)

lemma env_chip_simps [simp]:
  "rd32 (env_chip c fails) h a = c" "transport_err (env_chip c fails) h = False"
  "calloc_ok (env_chip c fails) n = (n \<notin> set fails)"
  by (simp_all add: env_chip_def)

lemma sam3x_recognised_sam3x8e: "sam3x_recognised (env_chip 0x285E0A60 fails) t"
  by (simp add: sam3x_recognised_def cidr_first_def cidr_key_def chipid_defs)

lemma sam_flash_size_sam3x8e: "sam_flash_size 0x285E0A60 = 0x80000"
  by (simp add: sam_flash_size_def nvpsiz_defs)

lemma flash_sam3x_probe_sam3x8e:
  "flash (snd (sam3x_probe (env_chip 0x285E0A60 fails) t)) =
     flash (sam3_add_flash (env_chip 0x285E0A60 fails)
       (sam3_add_flash (env_chip 0x285E0A60 fails) (log_add t [MemRead32 SAM3X_CHIPID_CIDR])
          (SAM3X_EEFC_BASE 0) 0x80000 0x40000)
       (SAM3X_EEFC_BASE 1) 0xC0000 0x40000)"
proof -
  have k: "0x285E0A60 AND (CHIPID_CIDR_ARCH_MASK OR CHIPID_CIDR_EPROC_MASK) \<in> set sam3x_keys"
    by (simp add: chipid_defs)
  show ?thesis
    by (simp add: sam3x_probe_def target_mem_read32_def k Let_def
        sam_flash_size_sam3x8e target_add_commands_def target_add_ram_def
        flash_sam3_add_flash log_add_def)
qed

lemma target_new_simps [simp]:
  "hw_log target_new = []" "flash target_new = []" "ram target_new = []"
  "commands target_new = []" "callocs target_new = 0" "driver target_new = []"
  "debug_log target_new = []" "console target_new = []" "target_storage target_new = None"
  by (simp_all add: target_new_def)

lemma flash_sam3x_probe:
  assumes "\<forall>n. calloc_ok e n"
  shows "flash (snd (sam3x_probe e t)) = flash t @
     (let c1 = cidr_first e t; c2 = cidr_second e t;
          s1 = sam_flash_size c1; s2 = sam_flash_size c2 in
      if cidr_key c1 \<in> set sam3x_keys then
        [sam3_region (SAM3X_EEFC_BASE 0) 0x80000 (s1 div 2),
         sam3_region (SAM3X_EEFC_BASE 1) (of_nat (0x80000 + s1 div 2)) (s1 div 2)]
      else if cidr_key c2 \<in> set sam3ns_keys then [sam3_region SAM3N_EEFC_BASE 0x400000 s2]
      else if cidr_key c2 \<in> set sam3u_keys then
        sam3_region (SAM3U_EEFC_BASE 0) 0x80000 (min s2 0x80000) #
        (if s2 \<ge> 0x80000 then [sam3_region (SAM3U_EEFC_BASE 1) 0x100000 0x80000] else [])
      else if cidr_key c2 \<in> set sam4s_keys then
        (if s2 \<le> 0x80000 then [sam4_region (SAM4S_EEFC_BASE 0) 0x400000 s2]
         else [sam4_region (SAM4S_EEFC_BASE 0) 0x400000 (s2 div 2),
               sam4_region (SAM4S_EEFC_BASE 1) (of_nat (0x400000 + s2 div 2)) (s2 div 2)])
      else [])"
  using assms
  by (simp add: sam3x_probe_def target_mem_read32_def Let_def cidr_first_def cidr_second_def
        cidr_key_def target_add_commands_def target_add_ram_def
        flash_sam3_add_flash flash_sam4_add_flash)

lemma flash_samx7x_probe:
  assumes "\<forall>n. calloc_ok e n"
  shows "flash (snd (samx7x_probe e t)) = flash t @
     (if samx7x_recognised e t
      then [sam4_region SAMX7X_EEFC_BASE 0x400000 (sam_flash_size (cidr_first e t))] else [])"
proof -
  have u: "unat (word_of_nat (sam_flash_size c) :: u32) = sam_flash_size c" for c
    using sam_flash_size_cases [of c] by auto
  have fs: "flash_size (samx7x_parse_id c x) = of_nat (sam_flash_size c)" for c x
    by (simp add: samx7x_parse_id_def Let_def)
  show ?thesis
    using assms
    by (simp add: samx7x_probe_def samx7x_recognised_def cidr_first_def target_mem_read32_def
        Let_def calloc_def target_add_commands_def target_add_ram_def flash_sam4_add_flash
        fs u split: prod.splits)
qed

lemma keys_disjoint:
  "k \<in> set sam3x_keys \<Longrightarrow> k \<notin> set sam3u_keys"
  "k \<in> set sam3ns_keys \<Longrightarrow> k \<notin> set sam3u_keys"
  by (auto simp: chipid_defs)

lemma region_simps [simp]:
  "start (sam3_region b a l) = a" "flength (sam3_region b a l) = l"
  "start (sam4_region b a l) = a" "flength (sam4_region b a l) = l"
  by (simp_all add: sam3_region_def sam4_region_def)

lemma sam3x_layout:
  assumes "s \<in> {0, 0x2000, 0x4000, 0x8000, 0x10000, 0x20000, 0x40000, 0x80000, 0x100000, 0x200000 :: nat}"
  shows "contiguous [sam3_region b1 0x80000 (s div 2), sam3_region b2 (of_nat (0x80000 + s div 2)) (s div 2)]"
    and "s \<noteq> 0 \<Longrightarrow> ascending [sam3_region b1 0x80000 (s div 2), sam3_region b2 (of_nat (0x80000 + s div 2)) (s div 2)]"
    and "total_length [sam3_region b1 0x80000 (s div 2), sam3_region b2 (of_nat (0x80000 + s div 2)) (s div 2)] = s"
  using assms by (auto simp: total_length_def)

lemma sam4s_layout:
  assumes "s \<in> {0, 0x2000, 0x4000, 0x8000, 0x10000, 0x20000, 0x40000, 0x80000, 0x100000, 0x200000 :: nat}"
    and "\<not> s \<le> 0x80000"
  shows "contiguous [sam4_region b1 0x400000 (s div 2), sam4_region b2 (of_nat (0x400000 + s div 2)) (s div 2)]"
    and "ascending [sam4_region b1 0x400000 (s div 2), sam4_region b2 (of_nat (0x400000 + s div 2)) (s div 2)]"
    and "total_length [sam4_region b1 0x400000 (s div 2), sam4_region b2 (of_nat (0x400000 + s div 2)) (s div 2)] = s"
  using assms by (auto simp: total_length_def)

lemma sam3u_layout:
  assumes "s \<in> {0, 0x2000, 0x4000, 0x8000, 0x10000, 0x20000, 0x40000, 0x80000, 0x100000, 0x200000 :: nat}"
  shows "contiguous (sam3_region b1 0x80000 (min s 0x80000) #
           (if s \<ge> 0x80000 then [sam3_region b2 0x100000 0x80000] else []))"
    and "ascending (sam3_region b1 0x80000 (min s 0x80000) #
           (if s \<ge> 0x80000 then [sam3_region b2 0x100000 0x80000] else []))"
    and "s < 0x80000 \<Longrightarrow> total_length (sam3_region b1 0x80000 (min s 0x80000) #
           (if s \<ge> 0x80000 then [sam3_region b2 0x100000 0x80000] else [])) = s"
    and "s > 0x80000 \<Longrightarrow> total_length (sam3_region b1 0x80000 (min s 0x80000) #
           (if s \<ge> 0x80000 then [sam3_region b2 0x100000 0x80000] else [])) = 0x100000"
  using assms by (auto simp: total_length_def)


lemma sam3x_probed_cidr_sam3x8e: "sam3x_probed_cidr (env_chip 0x285E0A60 fails) t = 0x285E0A60"
  by (simp add: sam3x_probed_cidr_def cidr_first_def cidr_second_def)

lemma cidr_key_sam3x8e: "cidr_key 0x285E0A60 \<notin> set sam3u_keys"
  by (simp add: cidr_key_def chipid_defs)

lemma samx7x_recognised_same70q21: "samx7x_recognised (env_chip 0xA1020E00 fails) t"
  by (simp add: samx7x_recognised_def cidr_first_def chipid_defs)

lemma sam_flash_size_same70q21: "sam_flash_size 0xA1020E00 = 0x200000"
  by (simp add: sam_flash_size_def nvpsiz_defs)

text \<open>
  A SAM3U whose identification register gives 512K (0x28000A60): the second bank is added
  although the first already holds the whole flash, and the regions add up to 1024K.
\<close>

lemma sam3u_512k_regions:
  "fst (sam3x_probe (env_chip 0x28000A60 []) target_new)
   \<and> sam_flash_size (sam3x_probed_cidr (env_chip 0x28000A60 []) target_new) = 0x80000
   \<and> flash (snd (sam3x_probe (env_chip 0x28000A60 []) target_new)) =
       [sam3_region (SAM3U_EEFC_BASE 0) 0x80000 0x80000,
        sam3_region (SAM3U_EEFC_BASE 1) 0x100000 0x80000]"
proof -
  have k: "cidr_key 0x28000A60 \<in> set sam3u_keys" "cidr_key 0x28000A60 \<notin> set sam3x_keys"
    "cidr_key 0x28000A60 \<notin> set sam3ns_keys"
    by (simp_all add: cidr_key_def chipid_defs)
  have s: "sam_flash_size 0x28000A60 = 0x80000"
    by (simp add: sam_flash_size_def nvpsiz_defs)
  have ok: "\<forall>n. calloc_ok (env_chip 0x28000A60 []) n" by simp
  show ?thesis
    using k
    by (simp add: sam3x_probe_result sam3x_recognised_def flash_sam3x_probe [OF ok]
          sam3x_probed_cidr_def cidr_first_def cidr_second_def s)
qed

section \<open>The claims\<close>

text \<open>
  C2. Let the command be issued and let the first k polling iterations find the
  controller not ready and see no transport error. If iteration k + 1 finds it not ready
  and the error query reports a transport error, \<open>sam3x_flash_cmd\<close> returns at once with
  -1, the error query being its last access. If instead the status read of iteration
  k + 1 finds the ready bit set, \<open>sam3x_flash_cmd\<close> reads the status register once more
  and returns that value masked with the command-error and lock-error bits, whatever
  it is: one of 0, 2, 4, 6, never the -1 of a transport failure. Readiness does not
  make the result 0: a controller that is ready with the command-error bit set gives 2.
\<close>

theorem sam3x_flash_cmd_outcome:
  assumes "\<forall>j<k. fsr_not_ready e (log_add (cmd_issued t base cmd arg) (poll_idle base j)) base \<and>
                 \<not> err_after_read e (log_add (cmd_issued t base cmd arg) (poll_idle base j)) base"
  shows "let s = log_add (cmd_issued t base cmd arg) (poll_idle base k);
             fsr = EEFC_FSR base;
             sr = rd32 e (hw_log s @ [MemRead32 fsr]) fsr
         in (fsr_not_ready e s base \<and> err_after_read e s base \<longrightarrow>
               sam3x_flash_cmd e t base cmd arg = Some (- 1, log_add s [MemRead32 fsr, CheckError]))
          \<and> (\<not> fsr_not_ready e s base \<longrightarrow>
               sam3x_flash_cmd e t base cmd arg =
                 Some (uint (sr AND (EEFC_FSR_FCMDE OR EEFC_FSR_FLOCKE)),
                       log_add s [MemRead32 fsr, MemRead32 fsr])
               \<and> uint (sr AND (EEFC_FSR_FCMDE OR EEFC_FSR_FLOCKE)) \<in> {0, 2, 4, 6})"
proof -
  let ?s = "log_add (cmd_issued t base cmd arg) (poll_idle base k)"
  have skip: "sam3x_flash_cmd e t base cmd arg = sam3x_flash_cmd_poll e ?s base"
    unfolding sam3x_flash_cmd_eq using assms by (rule poll_skip)
  have a: "sam3x_flash_cmd e t base cmd arg =
      Some (- 1, log_add ?s [MemRead32 (EEFC_FSR base), CheckError])"
    if "fsr_not_ready e ?s base" "err_after_read e ?s base"
    unfolding skip using that by (rule poll_error)
  have b: "sam3x_flash_cmd e t base cmd arg =
      Some (uint (rd32 e (hw_log ?s @ [MemRead32 (EEFC_FSR base)]) (EEFC_FSR base) AND EEFC_FSR_ERROR),
            log_add ?s [MemRead32 (EEFC_FSR base), MemRead32 (EEFC_FSR base)])"
    if "\<not> fsr_not_ready e ?s base"
    unfolding skip using that by (rule poll_ready)
  show ?thesis
    unfolding Let_def EEFC_FSR_ERROR_def [symmetric]
    using a b error_mask_cases by blast
qed

theorem sam3x_flash_cmd_outcome_witness:
  "sam3x_flash_cmd (env_script 5 0 0 True) target_new 0x400E0A00 0x07 0x0009 =
     Some (- 1, log_add (cmd_issued target_new 0x400E0A00 0x07 0x0009)
                  (poll_idle 0x400E0A00 2 @ [MemRead32 0x400E0A08, CheckError]))
   \<and> sam3x_flash_cmd (env_script 5 0 3 False) target_new 0x400E0A00 0x07 0x0009 =
     Some (2, log_add (cmd_issued target_new 0x400E0A00 0x07 0x0009)
                  (poll_idle 0x400E0A00 2 @ [MemRead32 0x400E0A08, MemRead32 0x400E0A08]))"
proof -
  have h: "hw_log target_new = []" by (simp add: target_new_def)
  have A: "\<forall>j<2. fsr_not_ready (env_script 5 0 v err) (log_add (cmd_issued target_new 0x400E0A00 0x07 0x0009) (poll_idle 0x400E0A00 j)) 0x400E0A00 \<and>
                 \<not> err_after_read (env_script 5 0 v err) (log_add (cmd_issued target_new 0x400E0A00 0x07 0x0009) (poll_idle 0x400E0A00 j)) 0x400E0A00" for v err
    by (simp add: all_less_2 fsr_not_ready_def err_after_read_def env_script_def hw_log_cmd_issued h)
  show ?thesis
    using sam3x_flash_cmd_outcome [OF A, of 0 True] sam3x_flash_cmd_outcome [OF A, of 3 False]
    by (simp add: Let_def fsr_not_ready_def err_after_read_def env_script_def
          hw_log_cmd_issued h EEFC_FSR_def EEFC_FSR_FRDY_def EEFC_FSR_FCMDE_def EEFC_FSR_FLOCKE_def)
qed

text \<open>
  C3. For every 8-bit opcode C and every argument A of a caller, which the \<open>uint16_t\<close>
  parameter of \<open>sam3x_flash_cmd\<close> cuts down to its low 16 bits, the command word is
  \<open>(0x5A << 24) | C | ((A mod 2^16) << 8)\<close>: its bits 24 to 31 are the key 0x5A, its bits
  0 to 7 the opcode and its bits 8 to 23 the low 16 bits of A. It is the word written to
  the command register at \<open>base + 4\<close> before polling starts, and a call that returns
  has made this write to target memory and no other.
\<close>

theorem sam3x_flash_cmd_word:
  fixes A :: u32 and C :: u8
  shows "let w = flash_cmd_word C (ucast A) in
     w = push_bit 24 0x5A OR ucast C OR push_bit 8 (take_bit 16 A)
   \<and> drop_bit 24 w = 0x5A \<and> ucast w = C \<and> (ucast (drop_bit 8 w) :: u16) = ucast A
   \<and> hw_log (cmd_issued t base C (ucast A)) = hw_log t @ [MemWrite32 (base + 4) w]
   \<and> (\<forall>r t'. sam3x_flash_cmd e t base C (ucast A) = Some (r, t') \<longrightarrow>
         writes (hw_log t') = writes (hw_log t) @ [MemWrite32 (base + 4) w])"
proof -
  have 1: "flash_cmd_word C (ucast A) = push_bit 24 0x5A OR ucast C OR push_bit 8 (take_bit 16 A)"
    by (simp add: flash_cmd_word_def EEFC_FCR_FKEY_def ucast_ucast_16)
  have 2: "writes (hw_log t') = writes (hw_log t) @ [MemWrite32 (base + 4) (flash_cmd_word C (ucast A))]"
    if "sam3x_flash_cmd e t base C (ucast A) = Some (r, t')" for r t'
    using sam3x_flash_cmd_writes [OF that] by (simp add: EEFC_FCR_def)
  have 3: "hw_log (cmd_issued t base C (ucast A)) =
      hw_log t @ [MemWrite32 (base + 4) (flash_cmd_word C (ucast A))]"
    by (simp add: hw_log_cmd_issued EEFC_FCR_def)
  show ?thesis
    unfolding Let_def
    using 1 2 3 flash_cmd_word_key [of C "ucast A"] flash_cmd_word_cmd [of C "ucast A"]
      flash_cmd_word_arg [of C "ucast A"]
    by blast
qed

theorem sam3x_flash_cmd_word_witness:
  "sam3x_flash_cmd (env_script 0 0 1 False) target_new 0x400E0A00 0x07 (ucast (0x12345 :: u32)) =
     Some (0, log_add (cmd_issued target_new 0x400E0A00 0x07 0x2345) [MemRead32 0x400E0A08, MemRead32 0x400E0A08])
   \<and> writes (hw_log (log_add (cmd_issued target_new 0x400E0A00 0x07 0x2345) [MemRead32 0x400E0A08, MemRead32 0x400E0A08]))
       = [MemWrite32 0x400E0A04 0x5A234507]"
proof -
  have u: "(ucast (0x12345 :: u32) :: u16) = 0x2345" by simp
  have run: "sam3x_flash_cmd (env_script 0 0 1 False) target_new 0x400E0A00 0x07 (ucast (0x12345 :: u32)) =
     Some (0, log_add (cmd_issued target_new 0x400E0A00 0x07 0x2345) [MemRead32 0x400E0A08, MemRead32 0x400E0A08])"
    unfolding u
    by (subst sam3x_flash_cmd_ready_at_once)
       (simp_all add: fsr_not_ready_def env_script_def EEFC_FSR_FRDY_def EEFC_FSR_ERROR_eq EEFC_FSR_def)
  show ?thesis
    using sam3x_flash_cmd_word [where C = "0x07" and A = "0x12345" and t = target_new
        and base = "0x400E0A00" and e = "env_script 0 0 1 False"] run
    by (simp add: Let_def target_new_def writes_def)
qed

text \<open>
  C7. \<open>sam3_flash_erase\<close>, the erase function of every region that \<open>sam3_add_flash\<close>
  builds, returns 0 for any address and any length and leaves the target as it was: its
  log of hardware accesses (no command, no memory access) and its debug log (no call of
  the sequencer) included.
\<close>

theorem sam3_flash_erase_noop:
  "sam3_flash_erase e t f addr len = Some (0, t)
   \<and> (\<forall>e0 t0 base a l. calloc_ok e0 (callocs t0) \<longrightarrow>
        call_erase e t (last (flash (sam3_add_flash e0 t0 base a l))) addr len = Some (0, t))"
  by (simp add: sam3_flash_erase_def call_erase_def sam3_add_flash_ok target_add_flash_def
        sam3_region_def)

theorem sam3_flash_erase_noop_witness:
  "call_erase (env_script 0 0 0 True) target_new
     (last (flash (sam3_add_flash (env_script 0 0 0 True) target_new 0x400E0A00 0x80000 0x40000)))
     0x80000 0x100 = Some (0, target_new)"
proof -
  have "calloc_ok (env_script 0 0 0 True) (callocs target_new)"
    by (simp add: env_script_def)
  with sam3_flash_erase_noop [of "env_script 0 0 0 True" target_new "sam3_region 0x400E0A00 0x80000 0x40000" "0x80000" "0x100"]
  show ?thesis by blast
qed

text \<open>
  C9. Called with an argument count other than 3 (the command name and two arguments),
  \<open>sam3x_cmd_gpnvm_set\<close> prints the usage message on the console and returns false; the
  target is otherwise unchanged: no command is issued and target memory is not accessed.
\<close>

theorem gpnvm_set_usage_error:
  assumes "argc \<noteq> 3"
  shows "sam3x_cmd_gpnvm_set e t argc argv = Some (False, tc_printf t gpnvm_set_usage)
       \<and> hw_log (tc_printf t gpnvm_set_usage) = hw_log t
       \<and> debug_log (tc_printf t gpnvm_set_usage) = debug_log t
       \<and> console (tc_printf t gpnvm_set_usage) = console t @ [gpnvm_set_usage]"
  using assms by (simp add: sam3x_cmd_gpnvm_set_def tc_printf_def)

theorem gpnvm_set_usage_error_witness:
  "sam3x_cmd_gpnvm_set (env_script 0 0 1 False) target_new 2 [''gpnvm_set'', ''1''] =
     Some (False, tc_printf target_new gpnvm_set_usage)
   \<and> hw_log (tc_printf target_new gpnvm_set_usage) = []"
proof -
  have "(2::int) \<noteq> 3" by simp
  from gpnvm_set_usage_error [OF this, of "env_script 0 0 1 False" target_new "[''gpnvm_set'', ''1'']"]
  show ?thesis by (simp add: target_new_def)
qed

text \<open>
  C10. Whenever the sequencer returns, with whatever result, \<open>sam3x_cmd_gpnvm_get\<close> goes
  on to read the result register and print its value, and returns true; called with the
  command name and two arguments, \<open>sam3x_cmd_gpnvm_set\<close> discards the result of its own
  command in the same way, runs \<open>sam3x_cmd_gpnvm_get\<close> and returns true. Neither handler
  ever returns false from there: a result it returns is true.
\<close>

theorem gpnvm_handlers_ignore_result:
  "(\<forall>r t1. sam3x_flash_cmd e t (sam3x_flash_base t) EEFC_FCR_FCMD_GGPB 0 = Some (r, t1) \<longrightarrow>
      sam3x_cmd_gpnvm_get e t argc argv =
        Some (True, tc_printf (log_add t1 [MemRead32 (EEFC_FRR (sam3x_flash_base t))])
                      (gpnvm_msg (rd32 e (hw_log t1) (EEFC_FRR (sam3x_flash_base t))))))
   \<and> (\<forall>r1 t1 r2 t2.
        sam3x_flash_cmd e t (sam3x_flash_base t)
          (if atol (args ! 2) \<noteq> 0 then EEFC_FCR_FCMD_SGPB else EEFC_FCR_FCMD_CGPB)
          (ucast (word_of_int (atol (args ! 1)) :: u32)) = Some (r1, t1) \<and>
        sam3x_flash_cmd e t1 (sam3x_flash_base t) EEFC_FCR_FCMD_GGPB 0 = Some (r2, t2) \<longrightarrow>
      sam3x_cmd_gpnvm_set e t 3 args =
        Some (True, tc_printf (log_add t2 [MemRead32 (EEFC_FRR (sam3x_flash_base t))])
                      (gpnvm_msg (rd32 e (hw_log t2) (EEFC_FRR (sam3x_flash_base t))))))
   \<and> (\<forall>b t'. sam3x_cmd_gpnvm_get e t argc argv = Some (b, t') \<longrightarrow> b)
   \<and> (\<forall>b t'. sam3x_cmd_gpnvm_set e t 3 args = Some (b, t') \<longrightarrow> b)"
proof (intro conjI allI impI)
  fix r t1
  assume "sam3x_flash_cmd e t (sam3x_flash_base t) EEFC_FCR_FCMD_GGPB 0 = Some (r, t1)"
  then show "sam3x_cmd_gpnvm_get e t argc argv =
        Some (True, tc_printf (log_add t1 [MemRead32 (EEFC_FRR (sam3x_flash_base t))])
                      (gpnvm_msg (rd32 e (hw_log t1) (EEFC_FRR (sam3x_flash_base t)))))"
    by (rule gpnvm_get_run)
next
  fix r1 t1 r2 t2
  assume a: "sam3x_flash_cmd e t (sam3x_flash_base t)
          (if atol (args ! 2) \<noteq> 0 then EEFC_FCR_FCMD_SGPB else EEFC_FCR_FCMD_CGPB)
          (ucast (word_of_int (atol (args ! 1)) :: u32)) = Some (r1, t1) \<and>
        sam3x_flash_cmd e t1 (sam3x_flash_base t) EEFC_FCR_FCMD_GGPB 0 = Some (r2, t2)"
  then have b: "sam3x_flash_base t1 = sam3x_flash_base t"
    using sam3x_flash_cmd_flash_base by blast
  with a have "sam3x_cmd_gpnvm_get e t1 0 [] =
     Some (True, tc_printf (log_add t2 [MemRead32 (EEFC_FRR (sam3x_flash_base t))])
                   (gpnvm_msg (rd32 e (hw_log t2) (EEFC_FRR (sam3x_flash_base t)))))"
    using gpnvm_get_run [of e t1 r2 t2 0 "[]"] by simp
  with a show "sam3x_cmd_gpnvm_set e t 3 args =
        Some (True, tc_printf (log_add t2 [MemRead32 (EEFC_FRR (sam3x_flash_base t))])
                      (gpnvm_msg (rd32 e (hw_log t2) (EEFC_FRR (sam3x_flash_base t)))))"
    by (simp add: sam3x_cmd_gpnvm_set_def Let_def)
next
  fix b t' assume "sam3x_cmd_gpnvm_get e t argc argv = Some (b, t')"
  then show b by (rule gpnvm_get_True)
next
  fix b t' assume "sam3x_cmd_gpnvm_set e t 3 args = Some (b, t')"
  then show b by (rule gpnvm_set_True)
qed


theorem gpnvm_handlers_ignore_result_witness:
  "sam3x_flash_cmd (env_script 0 0 0 True) target_new 0x400E0C00 0x0D 0 =
     Some (- 1, log_add (cmd_issued target_new 0x400E0C00 0x0D 0) [MemRead32 0x400E0C08, CheckError])
   \<and> sam3x_cmd_gpnvm_get (env_script 0 0 0 True) target_new 1 [''gpnvm_get''] =
     Some (True, tc_printf
       (log_add (cmd_issued target_new 0x400E0C00 0x0D 0)
          [MemRead32 0x400E0C08, CheckError, MemRead32 0x400E0C0C]) (gpnvm_msg 0))
   \<and> sam3x_cmd_gpnvm_set (env_script 0 0 0 True) target_new 3 [''gpnvm_set'', ''1'', ''1''] =
     Some (True, tc_printf
       (log_add (cmd_issued
          (log_add (cmd_issued target_new 0x400E0C00 0x0B 1) [MemRead32 0x400E0C08, CheckError])
          0x400E0C00 0x0D 0)
          [MemRead32 0x400E0C08, CheckError, MemRead32 0x400E0C0C]) (gpnvm_msg 0))"
proof -
  let ?e = "env_script 0 0 0 True"
  have base: "sam3x_flash_base target_new = 0x400E0C00"
    by (simp add: sam3x_flash_base_def target_new_def)
  have run: "sam3x_flash_cmd ?e t 0x400E0C00 cmd arg =
     Some (- 1, log_add (cmd_issued t 0x400E0C00 cmd arg) [MemRead32 0x400E0C08, CheckError])"
    for t cmd arg
    by (subst sam3x_flash_cmd_error_at_once)
       (simp_all add: fsr_not_ready_def err_after_read_def env_script_def EEFC_FSR_def)
  have rd: "rd32 ?e h a = 0" for h a by (simp add: env_script_def)
  show ?thesis
    using gpnvm_handlers_ignore_result [where e = ?e and t = target_new and argc = 1
        and argv = "[''gpnvm_get'']" and args = "[''gpnvm_set'', ''1'', ''1'']"]
    by (simp add: base run rd atol_1 EEFC_FRR_def)
qed

text \<open>
  C6, as the code has it. \<open>sam3x_flash_write\<close> first passes the buffer to
  \<open>target_mem_write\<close>, then issues one command through the sequencer: the region's write
  command with the low 16 bits of \<open>(dest - start) / buf_size\<close> as argument. If the
  sequencer returns r, the write returns 0 when r is 0 and -1 for every other r, command
  error and transport failure alike; its writes to target memory are the buffer and
  the one command word, in this order.
\<close>

theorem sam3x_flash_write_result:
  assumes "0 < buf_size f"
    and "sam3x_flash_cmd e (target_mem_write t dest src len) (eefc_base f) (write_cmd f)
           (ucast (of_nat (unat (dest - start f) div buf_size f) :: u32)) = Some (r, t')"
  shows "sam3x_flash_write e t f dest src len = Some (if r = 0 then 0 else - 1, t')
       \<and> writes (hw_log t') = writes (hw_log t) @
           [MemWrite dest src len,
            MemWrite32 (eefc_base f + 4)
              (flash_cmd_word (write_cmd f)
                 (ucast (of_nat (unat (dest - start f) div buf_size f) :: u32)))]"
proof -
  have "sam3x_flash_write e t f dest src len = Some (if r = 0 then 0 else - 1, t')"
    using assms(2) by (simp add: sam3x_flash_write_def Let_def)
  moreover have "writes (hw_log t') = writes (hw_log t) @
           [MemWrite dest src len,
            MemWrite32 (eefc_base f + 4)
              (flash_cmd_word (write_cmd f)
                 (ucast (of_nat (unat (dest - start f) div buf_size f) :: u32)))]"
    using sam3x_flash_cmd_writes [OF assms(2)]
    by (simp add: writes_target_mem_write EEFC_FCR_def)
  ultimately show ?thesis by simp
qed

theorem sam3x_flash_write_result_witness:
  "sam3x_flash_write (env_script 0 0 1 False) target_new
       (sam4_region 0x400E0A00 0x400000 0x80000) 0x400200 [1, 2, 3] 3 =
     Some (0, log_add (cmd_issued (target_mem_write target_new 0x400200 [1, 2, 3] 3) 0x400E0A00 0x01 1)
                [MemRead32 0x400E0A08, MemRead32 0x400E0A08])
   \<and> writes (hw_log (log_add (cmd_issued (target_mem_write target_new 0x400200 [1, 2, 3] 3) 0x400E0A00 0x01 1)
                [MemRead32 0x400E0A08, MemRead32 0x400E0A08])) =
      [MemWrite 0x400200 [1, 2, 3] 3, MemWrite32 0x400E0A04 0x5A000101]"
proof -
  let ?f = "sam4_region 0x400E0A00 0x400000 0x80000"
  have 1: "0 < buf_size ?f" by (simp add: sam4_region_def SAM4_PAGE_SIZE_def)
  have 2: "sam3x_flash_cmd (env_script 0 0 1 False) (target_mem_write target_new 0x400200 [1, 2, 3] 3)
      (eefc_base ?f) (write_cmd ?f)
      (ucast (of_nat (unat (0x400200 - start ?f) div buf_size ?f) :: u32)) =
     Some (0, log_add (cmd_issued (target_mem_write target_new 0x400200 [1, 2, 3] 3) 0x400E0A00 0x01 1)
                [MemRead32 0x400E0A08, MemRead32 0x400E0A08])"
    by (simp add: sam4_region_def SAM4_PAGE_SIZE_def
        sam3x_flash_cmd_ready_script EEFC_FSR_FRDY_def EEFC_FSR_ERROR_eq EEFC_FSR_def)
  show ?thesis
    using sam3x_flash_write_result [OF 1 2]
    by (simp add: sam4_region_def SAM4_PAGE_SIZE_def target_new_def flash_cmd_word_def
          EEFC_FCR_FKEY_def writes_def)
qed

text \<open>
  C6 as stated fails: on a controller that is ready with the command-error bit set the
  sequencer returns 2, and \<open>sam3x_flash_write\<close> returns -1, not 2.
\<close>

theorem sam3x_flash_write_counterexample:
  "sam3x_flash_cmd (env_script 0 0 3 False) (target_mem_write target_new 0x400200 [1, 2, 3] 3)
     0x400E0A00 0x01 1 =
     Some (2, log_add (cmd_issued (target_mem_write target_new 0x400200 [1, 2, 3] 3) 0x400E0A00 0x01 1)
                [MemRead32 0x400E0A08, MemRead32 0x400E0A08])
   \<and> sam3x_flash_write (env_script 0 0 3 False) target_new
       (sam4_region 0x400E0A00 0x400000 0x80000) 0x400200 [1, 2, 3] 3 =
     Some (- 1, log_add (cmd_issued (target_mem_write target_new 0x400200 [1, 2, 3] 3) 0x400E0A00 0x01 1)
                [MemRead32 0x400E0A08, MemRead32 0x400E0A08])"
  by (simp add: sam3x_flash_write_def sam4_region_def SAM4_PAGE_SIZE_def
        sam3x_flash_cmd_ready_script EEFC_FSR_FRDY_def EEFC_FSR_ERROR_eq EEFC_FSR_def)

text \<open>
  C4, as the code has it. \<open>sam4_flash_erase\<close> on a region with a block size other than
  0 (that of a region built by \<open>sam4_add_flash\<close> is 8 pages of 512 bytes). Its first
  page index is \<open>(addr - start) / SAM4_PAGE_SIZE\<close>. Iteration i, counted from 0, issues
  one page-erase command (opcode \<open>EPA\<close>) whose argument is the low 16 bits of the page
  index advanced by 8 i, with the lowest bit set; when the first page index is a multiple
  of 8, the argument ends in the bits 001, the tag of an 8-page erase. The remaining
  length goes down by one block size per iteration, or to 0, so that there are
  \<open>\<lceil>len / blocksize\<rceil>\<close> iterations when no command fails. If the first k commands
  return 0 and k is that number, the erase returns 0 in the state the last command left
  and has written exactly these k command words. If k is less and the next command
  returns anything other than 0, the erase returns -1, whatever that result was, in the
  state that command left: the command words written are those of the k + 1 commands,
  nothing is issued after the failure and nothing is undone.
\<close>

theorem sam4_flash_erase_run:
  fixes ts :: "nat \<Rightarrow> target"
  assumes bs: "0 < blocksize f"
    and t0: "ts 0 = t"
    and k: "k \<le> erase_blocks len (blocksize f)"
    and run: "\<forall>i<k. sam3x_flash_cmd e (ts i) (eefc_base f) EEFC_FCR_FCMD_EPA
                      (erase_arg ((addr - start f) div of_nat SAM4_PAGE_SIZE) i) = Some (0, ts (Suc i))"
  shows "let chunk = (addr - start f) div of_nat SAM4_PAGE_SIZE; n = erase_blocks len (blocksize f) in
     (k = n \<longrightarrow>
        sam4_flash_erase e t f addr len = Some (0, ts k) \<and>
        writes (hw_log (ts k)) = writes (hw_log t) @ erase_cmds (eefc_base f) chunk n)
   \<and> (k < n \<longrightarrow>
        (\<forall>r t'. sam3x_flash_cmd e (ts k) (eefc_base f) EEFC_FCR_FCMD_EPA (erase_arg chunk k) =
                  Some (r, t') \<and> r \<noteq> 0 \<longrightarrow>
           sam4_flash_erase e t f addr len = Some (- 1, t') \<and>
           writes (hw_log t') = writes (hw_log t) @ erase_cmds (eefc_base f) chunk (Suc k)))
   \<and> (take_bit 3 chunk = 0 \<longrightarrow> (\<forall>i. take_bit 3 (erase_arg chunk i) = 1))"
proof -
  let ?chunk = "(addr - start f) div of_nat SAM4_PAGE_SIZE"
  let ?n = "erase_blocks len (blocksize f)"
  let ?base = "eefc_base f"
  have start: "sam4_flash_erase e t f addr len =
      sam4_flash_erase_loop e (ts k) f ?base (?chunk + 8 * of_nat k) (len - k * blocksize f)"
    using erase_loop_chain [OF bs run k] t0
    by (simp add: sam4_flash_erase_def Let_def)
  have wr: "writes (hw_log (ts k)) = writes (hw_log t) @ erase_cmds ?base ?chunk k"
    using erase_chain_writes [of k e ts ?base ?chunk "\<lambda>i. 0"] run t0 by simp
  have A: "sam4_flash_erase e t f addr len = Some (0, ts k)" if "k = ?n"
  proof -
    have "\<not> k * blocksize f < len" using that erase_blocks_less [OF bs, of k len] by simp
    then have "len - k * blocksize f = 0" by simp
    then show ?thesis using start by (simp add: erase_loop_done)
  qed
  have B: "sam4_flash_erase e t f addr len = Some (- 1, t') \<and>
           writes (hw_log t') = writes (hw_log t) @ erase_cmds ?base ?chunk (Suc k)"
    if "k < ?n" and c: "sam3x_flash_cmd e (ts k) ?base EEFC_FCR_FCMD_EPA (erase_arg ?chunk k) = Some (r, t')"
      and r: "r \<noteq> 0" for r t'
  proof -
    have pos: "0 < len - k * blocksize f"
      using that(1) erase_blocks_less [OF bs, of k len] by simp
    have c': "sam3x_flash_cmd e (ts k) ?base EEFC_FCR_FCMD_EPA
                (ucast ((?chunk + 8 * of_nat k) OR 0x1)) = Some (r, t')"
      using c by (simp add: erase_arg_def)
    have 1: "sam4_flash_erase e t f addr len = Some (- 1, t')"
      unfolding start using pos c' r by (rule erase_loop_fail)
    have 2: "writes (hw_log t') = writes (hw_log t) @ erase_cmds ?base ?chunk (Suc k)"
      using sam3x_flash_cmd_writes [OF c] wr by (simp add: erase_cmds_Suc)
    from 1 2 show ?thesis ..
  qed
  have C: "take_bit 3 (erase_arg ?chunk i) = 1" if "take_bit 3 ?chunk = 0" for i
    using that by (rule erase_arg_aligned)
  show ?thesis
    unfolding Let_def using A B C wr by blast
qed


theorem sam4_flash_erase_run_witness:
  "sam4_flash_erase (env_script 0 0 1 False) target_new
      (sam4_region 0x400E0A00 0x400000 0x80000) 0x401000 0x2001 =
     Some (0, erased target_new 0x400E0A00 8 3)
   \<and> writes (hw_log (erased target_new 0x400E0A00 8 3)) =
       [MemWrite32 0x400E0A04 0x5A000907, MemWrite32 0x400E0A04 0x5A001107,
        MemWrite32 0x400E0A04 0x5A001907]
   \<and> sam4_flash_erase (env_script 4 1 3 False) target_new
      (sam4_region 0x400E0A00 0x400000 0x80000) 0x401000 0x2001 =
     Some (- 1, erased target_new 0x400E0A00 8 2)
   \<and> writes (hw_log (erased target_new 0x400E0A00 8 2)) =
       [MemWrite32 0x400E0A04 0x5A000907, MemWrite32 0x400E0A04 0x5A001107]
   \<and> take_bit 3 (erase_arg 8 2) = 1"
proof -
  let ?f = "sam4_region 0x400E0A00 0x400000 0x80000"
  let ?ts = "erased target_new 0x400E0A00 8"
  have f: "blocksize ?f = 4096" "eefc_base ?f = 0x400E0A00" "start ?f = 0x400000"
    by (simp_all add: sam4_region_def SAM4_PAGE_SIZE_def)
  have chunk: "((0x401000 :: u32) - start ?f) div of_nat SAM4_PAGE_SIZE = 8"
    by (simp add: f SAM4_PAGE_SIZE_def)
  have n: "erase_blocks 0x2001 (blocksize ?f) = 3"
    by (simp add: f erase_blocks_def)
  have bs: "0 < blocksize ?f" by (simp add: f)
  have t0: "?ts 0 = target_new" by simp
  have ok: "\<forall>i<3. sam3x_flash_cmd (env_script 0 0 1 False) (?ts i) (eefc_base ?f) EEFC_FCR_FCMD_EPA
                  (erase_arg ((0x401000 - start ?f) div of_nat SAM4_PAGE_SIZE) i) = Some (0, ?ts (Suc i))"
    by (simp add: f SAM4_PAGE_SIZE_def sam3x_flash_cmd_ready_script EEFC_FSR_FRDY_def
          EEFC_FSR_ERROR_eq)
  have k3: "3 \<le> erase_blocks 0x2001 (blocksize ?f)" by (simp add: n)
  have k1: "1 \<le> erase_blocks 0x2001 (blocksize ?f)" by (simp add: n)
  let ?T1 = "log_add (cmd_issued target_new 0x400E0A00 EEFC_FCR_FCMD_EPA (erase_arg 8 0))
               [MemRead32 (EEFC_FSR 0x400E0A00), MemRead32 (EEFC_FSR 0x400E0A00)]"
  let ?T2 = "log_add (cmd_issued ?T1 0x400E0A00 EEFC_FCR_FCMD_EPA (erase_arg 8 1))
               [MemRead32 (EEFC_FSR 0x400E0A00), MemRead32 (EEFC_FSR 0x400E0A00)]"
  have e1: "?ts 1 = ?T1" by simp
  have e2: "?ts 2 = ?T2" by (simp add: numeral_2_eq_2)
  have ok1: "\<forall>i<1. sam3x_flash_cmd (env_script 4 1 3 False) (?ts i) (eefc_base ?f) EEFC_FCR_FCMD_EPA
                  (erase_arg ((0x401000 - start ?f) div of_nat SAM4_PAGE_SIZE) i) = Some (0, ?ts (Suc i))"
    unfolding all_less_1 chunk unfolding f
    by (subst sam3x_flash_cmd_ready_at_once)
       (simp_all add: fsr_not_ready_def env_script_def hw_log_cmd_issued target_new_def
          EEFC_FSR_FRDY_def EEFC_FSR_ERROR_eq)
  have "sam3x_flash_cmd (env_script 4 1 3 False) ?T1 0x400E0A00 EEFC_FCR_FCMD_EPA
                  (erase_arg 8 1) = Some (2, ?T2)"
    by (subst sam3x_flash_cmd_ready_at_once)
       (simp_all add: fsr_not_ready_def env_script_def hw_log_cmd_issued target_new_def
          EEFC_FSR_FRDY_def EEFC_FSR_ERROR_eq)
  then have bad: "sam3x_flash_cmd (env_script 4 1 3 False) (?ts 1) 0x400E0A00 EEFC_FCR_FCMD_EPA
                  (erase_arg 8 1) = Some (2, ?ts 2)"
    by (simp only: e1 e2)
  have w3: "erase_cmds 0x400E0A00 8 3 =
       [MemWrite32 0x400E0A04 0x5A000907, MemWrite32 0x400E0A04 0x5A001107,
        MemWrite32 0x400E0A04 0x5A001907]"
    by (simp add: erase_cmds_def numeral_3_eq_3 upt_rec erase_arg_def flash_cmd_word_def
          EEFC_FCR_FKEY_def EEFC_FCR_def)
  have w2: "erase_cmds 0x400E0A00 8 (Suc 1) =
       [MemWrite32 0x400E0A04 0x5A000907, MemWrite32 0x400E0A04 0x5A001107]"
    by (simp add: erase_cmds_def upt_rec erase_arg_def flash_cmd_word_def
          EEFC_FCR_FKEY_def EEFC_FCR_def)
  have wn: "writes (hw_log target_new) = []" by (simp add: target_new_def writes_def)
  have A: "sam4_flash_erase (env_script 0 0 1 False) target_new ?f 0x401000 0x2001 =
             Some (0, ?ts 3) \<and>
           writes (hw_log (?ts 3)) = erase_cmds 0x400E0A00 8 3"
    using sam4_flash_erase_run [OF bs t0 k3 ok] unfolding Let_def chunk n unfolding f wn by simp
  have B: "sam4_flash_erase (env_script 4 1 3 False) target_new ?f 0x401000 0x2001 =
             Some (- 1, ?ts 2) \<and>
           writes (hw_log (?ts 2)) = erase_cmds 0x400E0A00 8 (Suc 1)"
    using sam4_flash_erase_run [OF bs t0 k1 ok1] bad unfolding Let_def chunk n unfolding f wn by simp
  have al: "take_bit 3 (8 :: u32) = 0" by simp
  have C: "take_bit 3 (erase_arg 8 2) = 1"
    using sam4_flash_erase_run [OF bs t0 k3 ok] al unfolding Let_def chunk by blast
  show ?thesis using A B C unfolding w3 w2 by simp
qed

text \<open>
  C4 as stated fails: on a controller that is ready with the command-error bit set the
  first page-erase command fails with the sequencer result 2, and \<open>sam4_flash_erase\<close>
  returns -1, not that result; and for an address 0x400 above the start of the region
  the page index is 2 and the argument 3, whose low bits are not the tag of an 8-page
  erase.
\<close>

theorem sam4_flash_erase_counterexample:
  "sam3x_flash_cmd (env_script 0 0 3 False) target_new 0x400E0A00 0x07 0x0009 =
     Some (2, erased target_new 0x400E0A00 8 1)
   \<and> sam4_flash_erase (env_script 0 0 3 False) target_new
       (sam4_region 0x400E0A00 0x400000 0x80000) 0x401000 0x2001 =
     Some (- 1, erased target_new 0x400E0A00 8 1)
   \<and> erase_arg ((0x400400 - start (sam4_region 0x400E0A00 0x400000 0x80000)) div of_nat SAM4_PAGE_SIZE) 0 = 3"
proof -
  have a9: "erase_arg 8 0 = 0x0009" by (simp add: erase_arg_def)
  have c: "sam3x_flash_cmd (env_script 0 0 3 False) target_new 0x400E0A00 0x07 0x0009 =
     Some (2, erased target_new 0x400E0A00 8 1)"
    by (simp add: sam3x_flash_cmd_ready_script EEFC_FSR_FRDY_def EEFC_FSR_ERROR_eq a9)
  have c': "sam3x_flash_cmd (env_script 0 0 3 False) target_new 0x400E0A00 EEFC_FCR_FCMD_EPA
       (ucast ((8 :: u32) OR 0x1)) = Some (2, erased target_new 0x400E0A00 8 1)"
    using c by simp
  have e: "sam4_flash_erase (env_script 0 0 3 False) target_new
       (sam4_region 0x400E0A00 0x400000 0x80000) 0x401000 0x2001 =
     sam4_flash_erase_loop (env_script 0 0 3 False) target_new
       (sam4_region 0x400E0A00 0x400000 0x80000) 0x400E0A00 8 0x2001"
    by (simp add: sam4_flash_erase_def sam4_region_def SAM4_PAGE_SIZE_def)
  have "sam4_flash_erase_loop (env_script 0 0 3 False) target_new
       (sam4_region 0x400E0A00 0x400000 0x80000) 0x400E0A00 8 0x2001 =
       Some (- 1, erased target_new 0x400E0A00 8 1)"
    by (rule erase_loop_fail [OF _ c']) simp_all
  with c e show ?thesis
    by (simp add: erase_arg_def SAM4_PAGE_SIZE_def)
qed

text \<open>
  C8. When the identification register read by \<open>samx7x_probe\<close> has an architecture
  outside its table, and when neither register read by \<open>sam3x_probe\<close> has an
  architecture and processor in its tables, the probe returns false and has done
  nothing but read the identification registers: the target it leaves differs from the
  one it was given only by these reads in the log of hardware accesses, so that no flash
  region, no RAM region and no command has been registered, and driver name, private
  storage, console, debug output and allocations are as before.
\<close>

theorem probe_unrecognised:
  "(\<not> samx7x_recognised e t \<longrightarrow>
      samx7x_probe e t =
        (False, log_add t (MemRead32 SAM3X_CHIPID_CIDR #
           (if cidr_first e t AND CHIPID_CIDR_EXT \<noteq> 0 then [MemRead32 SAMX_CHIPID_EXID] else []))))
   \<and> (\<not> sam3x_recognised e t \<longrightarrow>
      sam3x_probe e t =
        (False, log_add t [MemRead32 SAM3X_CHIPID_CIDR, MemRead32 SAM34NSU_CHIPID_CIDR]))
   \<and> flash (log_add t evs) = flash t \<and> ram (log_add t evs) = ram t
   \<and> commands (log_add t evs) = commands t \<and> driver (log_add t evs) = driver t
   \<and> target_storage (log_add t evs) = target_storage t
   \<and> console (log_add t evs) = console t \<and> debug_log (log_add t evs) = debug_log t
   \<and> callocs (log_add t evs) = callocs t"
  using samx7x_probe_unknown [of e t] sam3x_probe_unknown [of e t] by simp

theorem probe_unrecognised_witness:
  "samx7x_probe (env_chip 0x285E0A60 []) target_new =
     (False, log_add target_new [MemRead32 0x400E0940])
   \<and> sam3x_probe (env_chip 0xA3CC0CE0 []) target_new =
     (False, log_add target_new [MemRead32 0x400E0940, MemRead32 0x400E0740])
   \<and> flash (log_add target_new [MemRead32 0x400E0940, MemRead32 0x400E0740]) = []"
proof -
  have 1: "\<not> samx7x_recognised (env_chip 0x285E0A60 []) target_new"
    by (simp add: samx7x_recognised_def cidr_first_def env_chip_def samx7x_archs_def
          CHIPID_CIDR_ARCH_MASK_def CHIPID_CIDR_ARCH_SAME70_def CHIPID_CIDR_ARCH_SAMS70_def
          CHIPID_CIDR_ARCH_SAMV71_def CHIPID_CIDR_ARCH_SAMV70_def)
  have 2: "\<not> sam3x_recognised (env_chip 0xA3CC0CE0 []) target_new"
    by (simp add: sam3x_recognised_def cidr_first_def cidr_second_def cidr_key_def env_chip_def
          sam3x_keys_def sam3ns_keys_def sam3u_keys_def sam4s_keys_def
          CHIPID_CIDR_ARCH_MASK_def CHIPID_CIDR_EPROC_MASK_def CHIPID_CIDR_EPROC_CM3_def
          CHIPID_CIDR_EPROC_CM4_def
          CHIPID_CIDR_ARCH_SAM3XxC_def CHIPID_CIDR_ARCH_SAM3XxE_def CHIPID_CIDR_ARCH_SAM3XxG_def
          CHIPID_CIDR_ARCH_SAM3NxA_def CHIPID_CIDR_ARCH_SAM3NxB_def CHIPID_CIDR_ARCH_SAM3NxC_def
          CHIPID_CIDR_ARCH_SAM3SxA_def CHIPID_CIDR_ARCH_SAM3SxB_def CHIPID_CIDR_ARCH_SAM3SxC_def
          CHIPID_CIDR_ARCH_SAM3UxC_def CHIPID_CIDR_ARCH_SAM3UxE_def
          CHIPID_CIDR_ARCH_SAM4SxA_def CHIPID_CIDR_ARCH_SAM4SxB_def CHIPID_CIDR_ARCH_SAM4SxC_def
          CHIPID_CIDR_ARCH_SAM4SDB_def CHIPID_CIDR_ARCH_SAM4SDC_def)
  have 3: "cidr_first (env_chip 0x285E0A60 []) target_new AND CHIPID_CIDR_EXT = 0"
    by (simp add: cidr_first_def env_chip_def CHIPID_CIDR_EXT_def)
  show ?thesis
    using probe_unrecognised [of "env_chip 0x285E0A60 []" target_new
        "[MemRead32 0x400E0940, MemRead32 0x400E0740]"] 
      probe_unrecognised [of "env_chip 0xA3CC0CE0 []" target_new
        "[MemRead32 0x400E0940, MemRead32 0x400E0740]"] 1 2 3
    by (simp add: SAM3X_CHIPID_CIDR_def SAM34NSU_CHIPID_CIDR_def)
qed

text \<open>
  C5, as the code has it. An allocation failure while a flash region is built skips that
  region alone: \<open>sam3_add_flash\<close> and \<open>sam4_add_flash\<close> then only emit their diagnostic
  and leave the list of flash regions as it is, and otherwise append one region. It is
  not fatal to the probe, whose result does not depend on the regions built:
  \<open>sam3x_probe\<close> returns true exactly when an identification register matches its
  tables, and \<open>samx7x_probe\<close> exactly when the register matches its table and the
  allocation of the variant string, the second of that probe, succeeds.
\<close>

theorem probe_result_and_allocation:
  "fst (sam3x_probe e t) = sam3x_recognised e t
   \<and> fst (samx7x_probe e t) = (samx7x_recognised e t \<and> calloc_ok e (Suc (callocs t)))
   \<and> (\<not> calloc_ok e (callocs t) \<longrightarrow>
        sam3_add_flash e t base addr len =
          DEBUG_WARN (t\<lparr>callocs := Suc (callocs t)\<rparr>)
            (''calloc: failed in sam3_add_flash'' @ [CHR 0x0A]) \<and>
        sam4_add_flash e t base addr len =
          DEBUG_WARN (t\<lparr>callocs := Suc (callocs t)\<rparr>)
            (''calloc: failed in sam4_add_flash'' @ [CHR 0x0A]) \<and>
        flash (sam3_add_flash e t base addr len) = flash t \<and>
        flash (sam4_add_flash e t base addr len) = flash t)
   \<and> (calloc_ok e (callocs t) \<longrightarrow>
        flash (sam3_add_flash e t base addr len) = flash t @ [sam3_region base addr len] \<and>
        flash (sam4_add_flash e t base addr len) = flash t @ [sam4_region base addr len])"
  using sam3x_probe_result [of e t] samx7x_probe_result [of e t]
    sam3_add_flash_fail [of e t base addr len] sam4_add_flash_fail [of e t base addr len]
  by (simp add: flash_sam3_add_flash flash_sam4_add_flash DEBUG_WARN_def)

theorem probe_result_and_allocation_witness:
  "fst (sam3x_probe (env_chip 0x285E0A60 [0]) target_new)
   \<and> flash (sam3_add_flash (env_chip 0x285E0A60 [0]) target_new 0x400E0A00 0x80000 0x40000) = []
   \<and> flash (sam3_add_flash (env_chip 0x285E0A60 []) target_new 0x400E0A00 0x80000 0x40000) =
       [sam3_region 0x400E0A00 0x80000 0x40000]"
  using probe_result_and_allocation [of "env_chip 0x285E0A60 [0]" target_new "0x400E0A00" "0x80000" "0x40000"]
    probe_result_and_allocation [of "env_chip 0x285E0A60 []" target_new "0x400E0A00" "0x80000" "0x40000"]
  by (simp add: sam3x_recognised_sam3x8e DEBUG_WARN_def)

text \<open>
  C5 as stated fails: on a SAM3X8E (identification register 0x285E0A60) with both
  allocations failing, \<open>sam3x_probe\<close> returns true and has registered no flash region.
\<close>

theorem probe_success_counterexample:
  "fst (sam3x_probe (env_chip 0x285E0A60 [0, 1]) target_new)
   \<and> flash (snd (sam3x_probe (env_chip 0x285E0A60 [0, 1]) target_new)) = []"
  by (simp add: sam3x_probe_result sam3x_recognised_sam3x8e flash_sam3x_probe_sam3x8e
        flash_sam3_add_flash)


text \<open>
  C1, as the code has it. Let every allocation succeed and let the probe return true.
  The flash regions it has registered, in registration order, are contiguous: each one
  starts where the one before it ends. Their start addresses go strictly up whenever the
  decoded flash size is not 0 (\<open>samx7x_probe\<close> registers a single region). Their
  lengths add up to the flash size decoded from the identification register, except on
  the SAM3U line, whose second bank is a fixed 512K at 0x100000: there the sum is the
  decoded size when that is below 512K, and 1024K when it is above 512K.
\<close>

theorem probe_flash_layout:
  assumes ok: "\<forall>n. calloc_ok e n"
  shows "(fst (sam3x_probe e t) \<longrightarrow>
          (let new = drop (length (flash t)) (flash (snd (sam3x_probe e t)));
               c = sam3x_probed_cidr e t; size = sam_flash_size c in
           flash (snd (sam3x_probe e t)) = flash t @ new \<and> contiguous new
           \<and> (size \<noteq> 0 \<longrightarrow> ascending new)
           \<and> (cidr_key c \<notin> set sam3u_keys \<or> size < 0x80000 \<longrightarrow> total_length new = size)
           \<and> (cidr_key c \<in> set sam3u_keys \<and> 0x80000 < size \<longrightarrow> total_length new = 0x100000)))
       \<and> (fst (samx7x_probe e t) \<longrightarrow>
          (let new = drop (length (flash t)) (flash (snd (samx7x_probe e t)));
               size = sam_flash_size (cidr_first e t) in
           flash (snd (samx7x_probe e t)) = flash t @ new \<and> contiguous new \<and> ascending new
           \<and> total_length new = size))"
proof (intro conjI impI)
  assume "fst (samx7x_probe e t)"
  then have r: "samx7x_recognised e t" by (simp add: samx7x_probe_result)
  show "let new = drop (length (flash t)) (flash (snd (samx7x_probe e t)));
            size = sam_flash_size (cidr_first e t) in
        flash (snd (samx7x_probe e t)) = flash t @ new \<and> contiguous new \<and> ascending new
        \<and> total_length new = size"
    by (simp add: flash_samx7x_probe [OF ok] r Let_def total_length_def)
next
  assume "fst (sam3x_probe e t)"
  then have r: "sam3x_recognised e t" by (simp add: sam3x_probe_result)
  let ?c1 = "cidr_first e t" and ?c2 = "cidr_second e t"
  note s1 = sam_flash_size_cases [of ?c1]
  note s2 = sam_flash_size_cases [of ?c2]
  consider (x) "cidr_key ?c1 \<in> set sam3x_keys"
    | (ns) "cidr_key ?c1 \<notin> set sam3x_keys" "cidr_key ?c2 \<in> set sam3ns_keys"
    | (u) "cidr_key ?c1 \<notin> set sam3x_keys" "cidr_key ?c2 \<notin> set sam3ns_keys"
          "cidr_key ?c2 \<in> set sam3u_keys"
    | (s4) "cidr_key ?c1 \<notin> set sam3x_keys" "cidr_key ?c2 \<notin> set sam3ns_keys"
          "cidr_key ?c2 \<notin> set sam3u_keys" "cidr_key ?c2 \<in> set sam4s_keys"
    using r by (auto simp: sam3x_recognised_def)
  then show "let new = drop (length (flash t)) (flash (snd (sam3x_probe e t)));
               c = sam3x_probed_cidr e t; size = sam_flash_size c in
           flash (snd (sam3x_probe e t)) = flash t @ new \<and> contiguous new
           \<and> (size \<noteq> 0 \<longrightarrow> ascending new)
           \<and> (cidr_key c \<notin> set sam3u_keys \<or> size < 0x80000 \<longrightarrow> total_length new = size)
           \<and> (cidr_key c \<in> set sam3u_keys \<and> 0x80000 < size \<longrightarrow> total_length new = 0x100000)"
  proof cases
    case x
    then show ?thesis
      using sam3x_layout [OF s1] keys_disjoint(1) [OF x]
      by (simp add: flash_sam3x_probe [OF ok] sam3x_probed_cidr_def Let_def)
  next
    case ns
    then show ?thesis
      using keys_disjoint(2) [OF ns(2)]
      by (simp add: flash_sam3x_probe [OF ok] sam3x_probed_cidr_def Let_def total_length_def)
  next
    case u
    then show ?thesis
      using sam3u_layout [OF s2]
      by (simp add: flash_sam3x_probe [OF ok] sam3x_probed_cidr_def Let_def)
  next
    case s4
    show ?thesis
    proof (cases "sam_flash_size ?c2 \<le> 0x80000")
      case True
      with s4 show ?thesis
        by (simp add: flash_sam3x_probe [OF ok] sam3x_probed_cidr_def Let_def total_length_def)
    next
      case False
      with s4 show ?thesis
        using sam4s_layout [OF s2 False]
        by (simp add: flash_sam3x_probe [OF ok] sam3x_probed_cidr_def Let_def)
    qed
  qed
qed


theorem probe_flash_layout_witness:
  "fst (sam3x_probe (env_chip 0x285E0A60 []) target_new)
   \<and> contiguous (flash (snd (sam3x_probe (env_chip 0x285E0A60 []) target_new)))
   \<and> ascending (flash (snd (sam3x_probe (env_chip 0x285E0A60 []) target_new)))
   \<and> total_length (flash (snd (sam3x_probe (env_chip 0x285E0A60 []) target_new))) = 0x80000
   \<and> fst (samx7x_probe (env_chip 0xA1020E00 []) target_new)
   \<and> total_length (flash (snd (samx7x_probe (env_chip 0xA1020E00 []) target_new))) = 0x200000"
proof -
  have ok: "\<forall>n. calloc_ok (env_chip c []) n" for c by simp
  have 1: "fst (sam3x_probe (env_chip 0x285E0A60 []) target_new)"
    by (simp add: sam3x_probe_result sam3x_recognised_sam3x8e)
  have 2: "fst (samx7x_probe (env_chip 0xA1020E00 []) target_new)"
    by (simp add: samx7x_probe_result samx7x_recognised_same70q21)
  show ?thesis
    using probe_flash_layout [OF ok, of "0x285E0A60" target_new]
      probe_flash_layout [OF ok, of "0xA1020E00" target_new] 1 2
    by (simp add: Let_def sam3x_probed_cidr_sam3x8e cidr_key_sam3x8e sam_flash_size_sam3x8e
          cidr_first_def sam_flash_size_same70q21)
qed

text \<open>
  C1 as stated fails: on a SAM3X8E (identification register 0x285E0A60, 512K) whose
  first allocation fails, \<open>sam3x_probe\<close> returns true and the regions it has registered
  add up to 256K.
\<close>

theorem probe_flash_layout_counterexample:
  "fst (sam3x_probe (env_chip 0x285E0A60 [0]) target_new)
   \<and> total_length (flash (snd (sam3x_probe (env_chip 0x285E0A60 [0]) target_new))) = 0x40000
   \<and> sam_flash_size (sam3x_probed_cidr (env_chip 0x285E0A60 [0]) target_new) = 0x80000"
  by (simp add: sam3x_probe_result sam3x_recognised_sam3x8e flash_sam3x_probe_sam3x8e
        flash_sam3_add_flash sam3x_probed_cidr_sam3x8e sam_flash_size_sam3x8e total_length_def)

end
